(* ===== verification/Prelude.thy ===== *)
theory Prelude
  imports Main "HOL-Library.Sublist"
begin

text \<open>
  Shared vocabulary of the development.  Python exceptions are the left summand of a sum
  type and propagate through \<open>exc_bind\<close>, the way an uncaught exception leaves the rest of a
  function body unevaluated.  \<open>join_with\<close> is \<^verbatim>\<open>sep.join(parts)\<close> on a list of Python
  strings; \<open>text_lines\<close> rebuilds a triple-quoted template from its lines.  Python strings
  are \<^typ>\<open>string\<close>, one \<^typ>\<open>char\<close> per code point (the model covers the code points
  below 256).
\<close>

named_theorems exc_simps "rules that evaluate exception propagation"
named_theorems join_simps "rules that compute joined string lists"

subsection \<open>Exceptions as values\<close>

definition exc_bind :: "'e + 'a \<Rightarrow> ('a \<Rightarrow> 'e + 'b) \<Rightarrow> 'e + 'b" where
  "exc_bind m f = (case m of Inl e \<Rightarrow> Inl e | Inr a \<Rightarrow> f a)"

text \<open>A loop that applies a raising operation to each item and stops at the first exception.\<close>

fun exc_map :: "('a \<Rightarrow> 'e + 'b) \<Rightarrow> 'a list \<Rightarrow> 'e + 'b list" where
  "exc_map f [] = Inr []"
| "exc_map f (x # xs) = exc_bind (f x) (\<lambda>y. exc_bind (exc_map f xs) (\<lambda>ys. Inr (y # ys)))"

subsection \<open>Joining strings\<close>

fun join_with :: "string \<Rightarrow> string list \<Rightarrow> string" where
  "join_with sep [] = []"
| "join_with sep [x] = x"
| "join_with sep (x # y # zs) = x @ sep @ join_with sep (y # zs)"

definition nl :: string where
  "nl = [CHR 0x0A]"

definition text_lines :: "string list \<Rightarrow> string" where
  "text_lines ls = join_with nl ls"

subsection \<open>Lemmas on exception propagation\<close>

lemma exc_bind_Inl [simp, exc_simps]: "exc_bind (Inl e) f = Inl e"
  by (simp add: exc_bind_def)

lemma exc_bind_Inr [simp, exc_simps]: "exc_bind (Inr a) f = f a"
  by (simp add: exc_bind_def)

lemma exc_bind_eq_Inr [exc_simps]:
  "exc_bind m f = Inr b \<longleftrightarrow> (\<exists>a. m = Inr a \<and> f a = Inr b)"
  by (cases m) simp_all

lemma exc_bind_eq_Inl [exc_simps]:
  "exc_bind m f = Inl e \<longleftrightarrow> m = Inl e \<or> (\<exists>a. m = Inr a \<and> f a = Inl e)"
  by (cases m) simp_all

lemma exc_bind_split:
  "P (exc_bind m f) \<longleftrightarrow> (\<forall>e. m = Inl e \<longrightarrow> P (Inl e)) \<and> (\<forall>a. m = Inr a \<longrightarrow> P (f a))"
  by (cases m) simp_all

lemma exc_bind_split_asm:
  "P (exc_bind m f) \<longleftrightarrow> \<not> ((\<exists>e. m = Inl e \<and> \<not> P (Inl e)) \<or> (\<exists>a. m = Inr a \<and> \<not> P (f a)))"
  by (cases m) simp_all

lemmas exc_bind_splits = exc_bind_split exc_bind_split_asm

lemma exc_bind_Inr_right [simp, exc_simps]: "exc_bind m Inr = m"
  by (cases m) simp_all

lemma exc_bind_assoc [exc_simps]:
  "exc_bind (exc_bind m f) g = exc_bind m (\<lambda>a. exc_bind (f a) g)"
  by (cases m) simp_all

lemma exc_bind_succeeds:
  "(\<exists>r. exc_bind m (\<lambda>a. Inr (f a)) = Inr r) \<longleftrightarrow> (\<exists>a. m = Inr a)"
  by (cases m) simp_all

lemma exc_bind2_succeeds:
  "(\<exists>r. exc_bind m (\<lambda>a. exc_bind n (\<lambda>b. Inr (f a b))) = Inr r) \<longleftrightarrow>
   (\<exists>a. m = Inr a) \<and> (\<exists>b. n = Inr b)"
  by (cases m; cases n) simp_all

lemma exc_bind3_succeeds:
  "(\<exists>r. exc_bind m (\<lambda>a. exc_bind n (\<lambda>b. exc_bind k (\<lambda>c. Inr (f a b c)))) = Inr r) \<longleftrightarrow>
   (\<exists>a. m = Inr a) \<and> (\<exists>b. n = Inr b) \<and> (\<exists>c. k = Inr c)"
  by (cases m; cases n; cases k) simp_all

lemma exc_map_eq_Inr [exc_simps]:
  "exc_map f xs = Inr ys \<longleftrightarrow> list_all2 (\<lambda>x y. f x = Inr y) xs ys"
proof (induction xs arbitrary: ys)
  case Nil
  then show ?case by auto
next
  case (Cons x xs)
  then show ?case by (cases ys) (auto simp: exc_bind_eq_Inr)
qed

lemma exc_map_succeeds:
  "(\<exists>ys. exc_map f xs = Inr ys) \<longleftrightarrow> (\<forall>x \<in> set xs. \<exists>y. f x = Inr y)"
  by (induction xs) (auto simp: exc_bind_eq_Inr)

lemma exc_map_append [exc_simps]:
  "exc_map f (xs @ ys) = exc_bind (exc_map f xs) (\<lambda>as. exc_bind (exc_map f ys) (\<lambda>bs. Inr (as @ bs)))"
  by (induction xs) (simp_all add: exc_bind_assoc)

lemma exc_map_Inr [exc_simps]: "exc_map (\<lambda>x. Inr (g x)) xs = Inr (map g xs)"
  by (induction xs) simp_all

subsection \<open>Lemmas on joining\<close>

lemma join_with_Cons [join_simps]:
  "xs \<noteq> [] \<Longrightarrow> join_with sep (x # xs) = x @ sep @ join_with sep xs"
  by (cases xs) simp_all

lemma join_with_append [join_simps]:
  "xs \<noteq> [] \<Longrightarrow> ys \<noteq> [] \<Longrightarrow>
   join_with sep (xs @ ys) = join_with sep xs @ sep @ join_with sep ys"
proof (induction xs)
  case Nil
  then show ?case by simp
next
  case (Cons x xs)
  then show ?case by (cases xs) (simp_all add: join_with_Cons)
qed

lemma join_with_Nil_sep [join_simps]: "join_with [] xs = concat xs"
  by (induction "[] :: string" xs rule: join_with.induct) simp_all

lemma set_join_with_subset:
  "set (join_with sep xs) \<subseteq> \<Union> (set ` set xs) \<union> set sep"
  by (induction sep xs rule: join_with.induct) auto

lemma join_with_Cons_head [join_simps]:
  "join_with sep ((c # x) # xs) = c # join_with sep (x # xs)"
  by (cases xs) simp_all

lemma text_lines_Cons [join_simps]:
  "ls \<noteq> [] \<Longrightarrow> text_lines (l # ls) = l @ nl @ text_lines ls"
  by (simp add: text_lines_def join_with_Cons)

lemma text_lines_single [join_simps]: "text_lines [l] = l"
  by (simp add: text_lines_def)

end
