(* ===== verification/PyValue.thy ===== *)
theory PyValue
  imports Prelude
begin

text \<open>
  The Python runtime as the renderer uses it.  A resume record arrives as a JSON-shaped
  Python value: \<open>pyval\<close> has a constructor for each of \<open>str\<close>, \<open>int\<close>, \<open>bool\<close>,
  \<open>None\<close>, \<open>list\<close> and \<open>dict\<close> (with string keys, in insertion order).  The theory
  holds the builtins the source calls: \<^verbatim>\<open>dict.get\<close>, truth testing, \<^verbatim>\<open>isinstance\<close>,
  iteration, \<^verbatim>\<open>str.join\<close> with its type check, and \<^verbatim>\<open>str()\<close>/\<^verbatim>\<open>repr()\<close> as an
  f-string replacement field applies them.  Exceptions carry CPython's message text.
\<close>

datatype pyval =
    PStr string
  | PInt int
  | PBool bool
  | PNone
  | PList "pyval list"
  | PDict "(string \<times> pyval) list"

type_synonym pydict = "(string \<times> pyval) list"

datatype py_exc =
    TypeError string
  | AttributeError string
  | IndexError string
  | OSError string
  | ValueError string

fun type_name :: "pyval \<Rightarrow> string" where
  "type_name (PStr _) = ''str''"
| "type_name (PInt _) = ''int''"
| "type_name (PBool _) = ''bool''"
| "type_name PNone = ''NoneType''"
| "type_name (PList _) = ''list''"
| "type_name (PDict _) = ''dict''"

definition quoted :: "string \<Rightarrow> string" where
  "quoted s = CHR 0x27 # s @ [CHR 0x27]"

subsection \<open>Dictionaries, truth values, isinstance\<close>

text \<open>\<^verbatim>\<open>d.get(k, default)\<close>: the value stored under \<open>k\<close>, else the default.\<close>

definition dict_get :: "pydict \<Rightarrow> string \<Rightarrow> pyval \<Rightarrow> pyval" where
  "dict_get d k dflt = (case map_of d k of Some v \<Rightarrow> v | None \<Rightarrow> dflt)"

fun py_truthy :: "pyval \<Rightarrow> bool" where
  "py_truthy (PStr s) = (s \<noteq> [])"
| "py_truthy (PInt i) = (i \<noteq> 0)"
| "py_truthy (PBool b) = b"
| "py_truthy PNone = False"
| "py_truthy (PList xs) = (xs \<noteq> [])"
| "py_truthy (PDict d) = (d \<noteq> [])"

fun is_list :: "pyval \<Rightarrow> bool" where
  "is_list (PList _) = True"
| "is_list _ = False"

fun is_dict :: "pyval \<Rightarrow> bool" where
  "is_dict (PDict _) = True"
| "is_dict _ = False"

fun is_str :: "pyval \<Rightarrow> bool" where
  "is_str (PStr _) = True"
| "is_str _ = False"

text \<open>The dict items of a list, in order: what a loop guarded by \<^verbatim>\<open>isinstance(x, dict)\<close> visits.\<close>

fun dict_items :: "pyval list \<Rightarrow> pydict list" where
  "dict_items [] = []"
| "dict_items (PDict d # xs) = d # dict_items xs"
| "dict_items (_ # xs) = dict_items xs"

subsection \<open>Iteration\<close>

text \<open>
  \<^verbatim>\<open>for x in v\<close>: a string yields its characters, a list its items, a dict its keys;
  anything else raises \<open>TypeError\<close>.
\<close>

fun iterable :: "pyval \<Rightarrow> bool" where
  "iterable (PStr _) = True"
| "iterable (PList _) = True"
| "iterable (PDict _) = True"
| "iterable _ = False"

fun py_iter :: "pyval \<Rightarrow> py_exc + pyval list" where
  "py_iter (PStr s) = Inr (map (\<lambda>c. PStr [c]) s)"
| "py_iter (PList xs) = Inr xs"
| "py_iter (PDict d) = Inr (map (\<lambda>kv. PStr (fst kv)) d)"
| "py_iter v = Inl (TypeError (quoted (type_name v) @ '' object is not iterable''))"

subsection \<open>Decimal text of integers\<close>

definition digit_char :: "nat \<Rightarrow> char" where
  "digit_char d = char_of (48 + d)"

fun nat_str :: "nat \<Rightarrow> string" where
  "nat_str n = (if n < 10 then [digit_char n] else nat_str (n div 10) @ [digit_char (n mod 10)])"

declare nat_str.simps [simp del]

definition int_str :: "int \<Rightarrow> string" where
  "int_str i = (if i < 0 then CHR ''-'' # nat_str (nat (- i)) else nat_str (nat i))"

subsection \<open>str.join\<close>

text \<open>
  \<^verbatim>\<open>sep.join(v)\<close> iterates \<open>v\<close> and requires every item to be a \<open>str\<close>; the first
  item that is not raises \<open>TypeError\<close> naming its index and type.
\<close>

fun collect_strs :: "nat \<Rightarrow> pyval list \<Rightarrow> py_exc + string list" where
  "collect_strs i [] = Inr []"
| "collect_strs i (v # vs) =
     (case v of
        PStr s \<Rightarrow> exc_bind (collect_strs (Suc i) vs) (\<lambda>ss. Inr (s # ss))
      | _ \<Rightarrow> Inl (TypeError (''sequence item '' @ nat_str i @ '': expected str instance, ''
                            @ type_name v @ '' found'')))"

definition str_join :: "string \<Rightarrow> pyval \<Rightarrow> py_exc + string" where
  "str_join sep v =
     (case py_iter v of
        Inl _ \<Rightarrow> Inl (TypeError ''can only join an iterable'')
      | Inr items \<Rightarrow> exc_bind (collect_strs 0 items) (\<lambda>ss. Inr (join_with sep ss)))"

subsection \<open>repr and str\<close>

text \<open>
  CPython's \<^verbatim>\<open>unicode_repr\<close>: the quote is \<open>"\<close> when the text holds \<open>'\<close> and no
  \<open>"\<close>, else \<open>'\<close>; the quote and the backslash are escaped; tab, newline and carriage
  return become \<^verbatim>\<open>\t \n \r\<close>; the other control characters, DEL and the non-printable
  Latin-1 characters (U+0080 to U+00A0 and U+00AD) become \<^verbatim>\<open>\xHH\<close>.
\<close>

definition hex_digit :: "nat \<Rightarrow> char" where
  "hex_digit n = (if n < 10 then char_of (48 + n) else char_of (87 + n))"

definition repr_quote :: "string \<Rightarrow> char" where
  "repr_quote s = (if CHR 0x27 \<in> set s \<and> CHR 0x22 \<notin> set s then CHR 0x22 else CHR 0x27)"

definition repr_char :: "char \<Rightarrow> char \<Rightarrow> string" where
  "repr_char q c =
     (let n = of_char c :: nat in
      if c = q \<or> c = CHR 0x5C then [CHR 0x5C, c]
      else if c = CHR 0x09 then [CHR 0x5C, CHR ''t'']
      else if c = CHR 0x0A then [CHR 0x5C, CHR ''n'']
      else if c = CHR 0x0D then [CHR 0x5C, CHR ''r'']
      else if n < 32 \<or> n = 127 \<or> (128 \<le> n \<and> n \<le> 160) \<or> n = 173
        then [CHR 0x5C, CHR ''x'', hex_digit (n div 16), hex_digit (n mod 16)]
      else [c])"

definition str_repr :: "string \<Rightarrow> string" where
  "str_repr s = (let q = repr_quote s in q # concat (map (repr_char q) s) @ [q])"

fun py_repr :: "pyval \<Rightarrow> string" where
  "py_repr (PStr s) = str_repr s"
| "py_repr (PInt i) = int_str i"
| "py_repr (PBool b) = (if b then ''True'' else ''False'')"
| "py_repr PNone = ''None''"
| "py_repr (PList xs) = ''['' @ join_with '', '' (map py_repr xs) @ '']''"
| "py_repr (PDict d) =
     ''{'' @ join_with '', '' (map (\<lambda>(k, v). str_repr k @ '': '' @ py_repr v) d) @ ''}''"

text \<open>\<^verbatim>\<open>str(v)\<close>, which is what \<^verbatim>\<open>f"{v}"\<close> inserts: a string as it is, else its repr.\<close>

fun py_str :: "pyval \<Rightarrow> string" where
  "py_str (PStr s) = s"
| "py_str v = py_repr v"

subsection \<open>Facts about the builtins\<close>

lemma digit_char_simps [simp]:
  "digit_char 0 = CHR ''0''" "digit_char (Suc 0) = CHR ''1''" "digit_char 2 = CHR ''2''"
  "digit_char 3 = CHR ''3''" "digit_char 4 = CHR ''4''" "digit_char 5 = CHR ''5''"
  "digit_char 6 = CHR ''6''" "digit_char 7 = CHR ''7''" "digit_char 8 = CHR ''8''"
  "digit_char 9 = CHR ''9''"
  by (code_simp)+

lemma nat_str_small: "n < 10 \<Longrightarrow> nat_str n = [digit_char n]"
  by (simp add: nat_str.simps)

lemma py_iter_succeeds [simp]: "(\<exists>xs. py_iter v = Inr xs) \<longleftrightarrow> iterable v"
  by (cases v) simp_all

lemma py_iter_fails: "\<not> iterable v \<Longrightarrow>
  py_iter v = Inl (TypeError (quoted (type_name v) @ '' object is not iterable''))"
  by (cases v) simp_all

lemma dict_items_filter [simp]: "dict_items (filter is_dict xs) = dict_items xs"
  by (induction xs rule: dict_items.induct) simp_all

lemma dict_items_append [simp]: "dict_items (xs @ ys) = dict_items xs @ dict_items ys"
  by (induction xs rule: dict_items.induct) simp_all

lemma collect_strs_map_PStr [simp]: "collect_strs i (map PStr ss) = Inr ss"
  by (induction ss arbitrary: i) simp_all

lemma collect_strs_succeeds:
  "(\<exists>ss. collect_strs i vs = Inr ss) \<longleftrightarrow> list_all is_str vs"
proof (induction vs arbitrary: i)
  case Nil
  then show ?case by simp
next
  case (Cons v vs)
  then show ?case by (cases v) (simp_all add: exc_bind_eq_Inr)
qed

lemma collect_strs_first_error:
  "list_all is_str vs \<Longrightarrow> \<not> is_str w \<Longrightarrow>
   collect_strs i (vs @ w # ws) =
     Inl (TypeError (''sequence item '' @ nat_str (i + length vs) @ '': expected str instance, ''
                     @ type_name w @ '' found''))"
proof (induction vs arbitrary: i)
  case Nil
  then show ?case by (cases w) simp_all
next
  case (Cons v vs)
  then obtain s where "v = PStr s" by (cases v) auto
  with Cons show ?case by simp
qed

lemma str_join_strs [simp]: "str_join sep (PList (map PStr ss)) = Inr (join_with sep ss)"
  by (simp add: str_join_def)

lemma str_join_list_succeeds:
  "(\<exists>r. str_join sep (PList xs) = Inr r) \<longleftrightarrow> list_all is_str xs"
  using collect_strs_succeeds [of 0 xs] by (auto simp: str_join_def exc_bind_eq_Inr)

end
