(* ===== verification/ResumeHtml.thy ===== *)
theory ResumeHtml
  imports PyValue
begin

text \<open>
  The resume renderer, \<^verbatim>\<open>generate_resume_html\<close> of
  \<^verbatim>\<open>src/backend/resume_builder_logic.py\<close> (lines 16--133).  The source builds one
  string \<^verbatim>\<open>html\<close> by appending f-string templates; the model passes \<^verbatim>\<open>html\<close> through
  the loops as explicit state and returns it, or the exception that stopped the function.
  Each template is the list of its source lines (\<open>text_lines\<close>): the first element is
  the empty text after the opening quotes, the last the indentation before the closing
  quotes.  \<^verbatim>\<open>{x}\<close> fields insert \<open>py_str x\<close>, doubled braces are single braces.
\<close>

text \<open>\<^verbatim>\<open>{d.get(k, default)}\<close> with a string default.\<close>

definition get_str :: "pydict \<Rightarrow> string \<Rightarrow> string \<Rightarrow> string" where
  "get_str d k dflt = py_str (dict_get d k (PStr dflt))"

subsection \<open>Document head, contact line, summary (lines 17--56)\<close>

definition head_html :: "pydict \<Rightarrow> string" where
  "head_html data = text_lines
    [ [],
      ''    <!DOCTYPE html>'',
      ''    <html lang=\"en\">'',
      ''    <head>'',
      ''        <meta charset=\"UTF-8\">'',
      ''        <meta name=\"viewport\" content=\"width=device-width, initial-scale=1.0\">'',
      ''        <title>Resume - '' @ get_str data ''name'' [] @ ''</title>'',
      ''        <style>'',
      ''            body { font-family: Arial, sans-serif; line-height: 1.6; color: #333; }'',
      ''            .container { max-width: 800px; margin: 0 auto; padding: 20px; }'',
      ''            h1 { text-align: center; font-size: 36px; margin-bottom: 10px; color: #000; }'',
      ''            .contact-info { text-align: center; margin-bottom: 20px; }'',
      ''            .section { margin-bottom: 20px; }'',
      ''            .section h2 { font-size: 20px; color: #000; border-bottom: 2px solid #000; padding-bottom: 5px; margin-bottom: 10px; font-weight: bold; }'',
      ''            .experience, .education, .project { margin-bottom: 15px; }'',
      ''            .experience h3, .education h3, .project h3 { margin: 0; font-size: 18px; }'',
      ''            .experience p, .education p, .project p { margin: 5px 0; }'',
      ''            .skills, .certifications, .languages, .hobbies { margin-bottom: 10px; }'',
      ''            ul { padding-left: 20px; }'',
      ''        </style>'',
      ''    </head>'',
      ''    <body>'',
      ''        <div class=\"container\">'',
      ''            <h1>'' @ get_str data ''name'' [] @ ''</h1>'',
      ''            <div class=\"contact-info\">'',
      ''                <span>Phone: '' @ get_str data ''phone'' [] @ ''</span> | '',
      ''                <span>Email: '' @ get_str data ''email'' [] @ ''</span> | '',
      ''                <span>LinkedIn: '' @ get_str data ''linkedin'' ''N/A'' @ ''</span> | '',
      ''                <span>Portfolio: '' @ get_str data ''portfolio'' ''N/A'' @ ''</span> | '',
      ''                <span>Address: '' @ get_str data ''address'' ''N/A'' @ ''</span>'',
      ''            </div>'',
      [],
      ''            <div class=\"section\">'',
      ''                <h2>Professional Summary</h2>'',
      ''                <p>'' @ get_str data ''summary'' [] @ ''</p>'',
      ''            </div>'',
      [],
      ''            <div class=\"section\">'',
      ''                <h2>Work Experience</h2>'',
      ''    '' ]"

subsection \<open>Work experience (lines 57--68)\<close>

text \<open>Line 65: one \<^verbatim>\<open><li>\<close> per item of \<^verbatim>\<open>achievements\<close>, joined by one space.\<close>

definition achievements_html :: "pydict \<Rightarrow> py_exc + string" where
  "achievements_html exp =
     exc_bind (py_iter (dict_get exp ''achievements'' (PList [])))
       (\<lambda>achs. Inr (join_with '' '' (map (\<lambda>ach. ''<li>'' @ py_str ach @ ''</li>'') achs)))"

definition exp_block :: "pydict \<Rightarrow> py_exc + string" where
  "exp_block exp =
     exc_bind (achievements_html exp) (\<lambda>achs. Inr (text_lines
      [ [],
        ''                    <div class=\"experience\">'',
        ''                        <h3>'' @ get_str exp ''job_title'' [] @ '' | ''
          @ get_str exp ''company'' [] @ '' | '' @ get_str exp ''location'' [] @ '' | ''
          @ get_str exp ''start_date'' [] @ '' - '' @ get_str exp ''end_date'' [] @ ''</h3>'',
        ''                        <ul>'',
        ''                            '' @ achs,
        ''                        </ul>'',
        ''                    </div>'',
        ''                '' ]))"

fun exp_loop :: "string \<Rightarrow> pyval list \<Rightarrow> py_exc + string" where
  "exp_loop html [] = Inr html"
| "exp_loop html (exp # exps) =
     (case exp of
        PDict e \<Rightarrow> exc_bind (exp_block e) (\<lambda>b. exp_loop (html @ b) exps)
      | _ \<Rightarrow> exp_loop html exps)"

definition work_experience_html :: "pydict \<Rightarrow> string \<Rightarrow> py_exc + string" where
  "work_experience_html data html =
     (case dict_get data ''experiences'' (PList []) of
        PList experiences \<Rightarrow> exp_loop html experiences
      | _ \<Rightarrow> Inr html)"

subsection \<open>Education (lines 70--86)\<close>

definition education_open :: string where
  "education_open = text_lines
    [ [],
      ''            </div>'',
      [],
      ''            <div class=\"section\">'',
      ''                <h2>Education</h2>'',
      ''    '' ]"

definition edu_block :: "pydict \<Rightarrow> string" where
  "edu_block edu = text_lines
    [ [],
      ''                    <div class=\"education\">'',
      ''                        <h3>'' @ get_str edu ''degree'' [] @ ''</h3>'',
      ''                        <p>'' @ get_str edu ''institution'' [] @ '' | ''
        @ get_str edu ''location'' [] @ '' | Graduated: '' @ get_str edu ''graduation_date'' []
        @ ''</p>'',
      ''                        <p>Honors/Awards: '' @ get_str edu ''honors'' ''N/A'' @ ''</p>'',
      ''                    </div>'',
      ''                '' ]"

fun edu_loop :: "string \<Rightarrow> pyval list \<Rightarrow> string" where
  "edu_loop html [] = html"
| "edu_loop html (edu # edus) =
     (case edu of
        PDict e \<Rightarrow> edu_loop (html @ edu_block e) edus
      | _ \<Rightarrow> edu_loop html edus)"

definition education_html :: "pydict \<Rightarrow> string \<Rightarrow> string" where
  "education_html data html =
     (case dict_get data ''education'' (PList []) of
        PList education \<Rightarrow> edu_loop html education
      | _ \<Rightarrow> html)"

subsection \<open>Skills and certifications (lines 88--103)\<close>

text \<open>Line 93: the joined skills when \<^verbatim>\<open>skills\<close> is a list, else the empty text.\<close>

definition skills_text :: "pydict \<Rightarrow> py_exc + string" where
  "skills_text data =
     (if is_list (dict_get data ''skills'' PNone)
      then str_join '', '' (dict_get data ''skills'' (PList []))
      else Inr [])"

text \<open>Lines 98, 122, 127: the joined list when the field is truthy and a list, else N/A.\<close>

definition joined_or_na :: "pydict \<Rightarrow> string \<Rightarrow> py_exc + string" where
  "joined_or_na data k =
     (if py_truthy (dict_get data k PNone) \<and> is_list (dict_get data k PNone)
      then str_join '', '' (dict_get data k (PList []))
      else Inr ''N/A'')"

definition skills_certs_template :: "string \<Rightarrow> string \<Rightarrow> string" where
  "skills_certs_template skills certs = text_lines
      [ [],
        ''            </div>'',
        [],
        ''            <div class=\"section\">'',
        ''                <h2>Skills</h2>'',
        ''                <p>'' @ skills @ ''</p>'',
        ''            </div>'',
        [],
        ''            <div class=\"section\">'',
        ''                <h2>Certifications</h2>'',
        ''                <p>'' @ certs @ ''</p>'',
        ''            </div>'',
        [],
        ''            <div class=\"section\">'',
        ''                <h2>Projects</h2>'',
        ''    '' ]"

definition skills_certs_html :: "pydict \<Rightarrow> py_exc + string" where
  "skills_certs_html data =
     exc_bind (skills_text data) (\<lambda>skills.
     exc_bind (joined_or_na data ''certifications'') (\<lambda>certs.
       Inr (skills_certs_template skills certs)))"

subsection \<open>Projects (lines 104--115)\<close>

definition proj_block :: "pydict \<Rightarrow> string" where
  "proj_block proj = text_lines
    [ [],
      ''                    <div class=\"project\">'',
      ''                        <h3>'' @ get_str proj ''title'' [] @ ''</h3>'',
      ''                        <p><strong>Description:</strong> '' @ get_str proj ''description'' [] @ ''</p>'',
      ''                        <p><strong>Technologies:</strong> '' @ get_str proj ''technologies'' [] @ ''</p>'',
      ''                        <p><strong>Role:</strong> '' @ get_str proj ''role'' [] @ ''</p>'',
      ''                    </div>'',
      ''                '' ]"

fun proj_loop :: "string \<Rightarrow> pyval list \<Rightarrow> string" where
  "proj_loop html [] = html"
| "proj_loop html (proj # projs) =
     (case proj of
        PDict p \<Rightarrow> proj_loop (html @ proj_block p) projs
      | _ \<Rightarrow> proj_loop html projs)"

definition projects_html :: "pydict \<Rightarrow> string \<Rightarrow> string" where
  "projects_html data html =
     (case dict_get data ''projects'' (PList []) of
        PList projects \<Rightarrow> proj_loop html projects
      | _ \<Rightarrow> html)"

subsection \<open>Languages, hobbies, document end (lines 117--132)\<close>

definition tail_template :: "string \<Rightarrow> string \<Rightarrow> string" where
  "tail_template languages hobbies = text_lines
      [ [],
        ''            </div>'',
        [],
        ''            <div class=\"section\">'',
        ''                <h2>Languages</h2>'',
        ''                <p>'' @ languages @ ''</p>'',
        ''            </div>'',
        [],
        ''            <div class=\"section\">'',
        ''                <h2>Hobbies and Interests</h2>'',
        ''                <p>'' @ hobbies @ ''</p>'',
        ''            </div>'',
        ''        </div>'',
        ''    </body>'',
        ''    </html>'',
        ''    '' ]"

definition tail_html :: "pydict \<Rightarrow> py_exc + string" where
  "tail_html data =
     exc_bind (joined_or_na data ''languages'') (\<lambda>languages.
     exc_bind (joined_or_na data ''hobbies'') (\<lambda>hobbies.
       Inr (tail_template languages hobbies)))"

subsection \<open>The whole function (lines 16--133)\<close>

text \<open>
  Every field access is \<^verbatim>\<open>data.get\<close>, so an argument that is not a dict raises
  \<open>AttributeError\<close> at the first one (line 23).
\<close>

fun generate_resume_html :: "pyval \<Rightarrow> py_exc + string" where
  "generate_resume_html (PDict data) =
     (let html = head_html data in
      exc_bind (work_experience_html data html) (\<lambda>html.
      let html = education_html data (html @ education_open) in
      exc_bind (skills_certs_html data) (\<lambda>mid.
      let html = projects_html data (html @ mid) in
      exc_bind (tail_html data) (\<lambda>tail. Inr (html @ tail)))))"
| "generate_resume_html v =
     Inl (AttributeError (quoted (type_name v) @ '' object has no attribute '' @ quoted ''get''))"

subsection \<open>When the renderer raises\<close>

text \<open>
  The conditions under which no exception is raised, one per field that can raise:
  the \<^verbatim>\<open>achievements\<close> of every dict entry of \<^verbatim>\<open>experiences\<close> must be iterable,
  and \<^verbatim>\<open>skills\<close>, \<^verbatim>\<open>certifications\<close>, \<^verbatim>\<open>languages\<close>, \<^verbatim>\<open>hobbies\<close>, when lists,
  must hold strings only.
\<close>

definition exp_entry_ok :: "pydict \<Rightarrow> bool" where
  "exp_entry_ok exp = iterable (dict_get exp ''achievements'' (PList []))"

definition experiences_ok :: "pydict \<Rightarrow> bool" where
  "experiences_ok data =
     (case dict_get data ''experiences'' (PList []) of
        PList xs \<Rightarrow> list_all exp_entry_ok (dict_items xs)
      | _ \<Rightarrow> True)"

definition str_items_ok :: "pyval \<Rightarrow> bool" where
  "str_items_ok v = (case v of PList xs \<Rightarrow> list_all is_str xs | _ \<Rightarrow> True)"

fun render_ok :: "pyval \<Rightarrow> bool" where
  "render_ok (PDict data) =
     (experiences_ok data
      \<and> list_all (\<lambda>k. str_items_ok (dict_get data k PNone))
           [''skills'', ''certifications'', ''languages'', ''hobbies''])"
| "render_ok _ = False"

subsection \<open>The loops as maps over the dict entries\<close>

lemma exp_loop_eq:
  "exp_loop html xs = exc_bind (exc_map exp_block (dict_items xs)) (\<lambda>bs. Inr (html @ concat bs))"
proof (induction xs arbitrary: html)
  case Nil
  then show ?case by simp
next
  case (Cons x xs)
  then show ?case by (cases x) (simp_all add: exc_bind_assoc)
qed

lemma edu_loop_eq: "edu_loop html xs = html @ concat (map edu_block (dict_items xs))"
proof (induction xs arbitrary: html)
  case Nil
  then show ?case by simp
next
  case (Cons x xs)
  then show ?case by (cases x) simp_all
qed

lemma proj_loop_eq: "proj_loop html xs = html @ concat (map proj_block (dict_items xs))"
proof (induction xs arbitrary: html)
  case Nil
  then show ?case by simp
next
  case (Cons x xs)
  then show ?case by (cases x) simp_all
qed

text \<open>The body of the function for a dict, with its local bindings substituted.\<close>

lemma generate_resume_html_dict:
  "generate_resume_html (PDict data) =
     exc_bind (work_experience_html data (head_html data)) (\<lambda>h.
     exc_bind (skills_certs_html data) (\<lambda>mid.
     exc_bind (tail_html data) (\<lambda>tail.
       Inr (projects_html data (education_html data (h @ education_open) @ mid) @ tail))))"
  by (simp only: generate_resume_html.simps Let_def)

declare generate_resume_html.simps(1) [simp del]

subsection \<open>Which parts succeed\<close>

lemma dict_get_present:
  "dict_get d k PNone = PList xs \<Longrightarrow> dict_get d k dflt = PList xs"
  by (simp add: dict_get_def split: option.splits)

lemma exp_block_succeeds: "(\<exists>b. exp_block exp = Inr b) \<longleftrightarrow> exp_entry_ok exp"
  by (auto simp: exp_block_def achievements_html_def exp_entry_ok_def exc_bind_eq_Inr
           simp flip: py_iter_succeeds)

lemma work_experience_html_succeeds:
  "(\<exists>r. work_experience_html data html = Inr r) \<longleftrightarrow> experiences_ok data"
proof (cases "dict_get data ''experiences'' (PList [])")
  case (PList xs)
  have "(\<exists>r. exp_loop html xs = Inr r) \<longleftrightarrow> (\<exists>bs. exc_map exp_block (dict_items xs) = Inr bs)"
    by (simp add: exp_loop_eq exc_bind_succeeds)
  also have "\<dots> \<longleftrightarrow> list_all exp_entry_ok (dict_items xs)"
    by (simp add: exc_map_succeeds exp_block_succeeds list_all_iff)
  finally show ?thesis
    by (simp add: work_experience_html_def experiences_ok_def PList)
qed (simp_all add: work_experience_html_def experiences_ok_def)

lemma str_join_field_succeeds:
  assumes "dict_get data k PNone = PList xs"
  shows "(\<exists>r. str_join sep (dict_get data k (PList [])) = Inr r) \<longleftrightarrow> list_all is_str xs"
proof -
  from assms have "dict_get data k (PList []) = PList xs" by (rule dict_get_present)
  then show ?thesis by (simp add: str_join_list_succeeds)
qed

lemma skills_text_succeeds:
  "(\<exists>r. skills_text data = Inr r) \<longleftrightarrow> str_items_ok (dict_get data ''skills'' PNone)"
  by (cases "dict_get data ''skills'' PNone")
     (simp_all add: skills_text_def str_items_ok_def str_join_field_succeeds)

lemma joined_or_na_succeeds:
  "(\<exists>r. joined_or_na data k = Inr r) \<longleftrightarrow> str_items_ok (dict_get data k PNone)"
  by (cases "dict_get data k PNone")
     (simp_all add: joined_or_na_def str_items_ok_def str_join_field_succeeds)

lemma skills_certs_html_succeeds:
  "(\<exists>r. skills_certs_html data = Inr r) \<longleftrightarrow>
   str_items_ok (dict_get data ''skills'' PNone) \<and> str_items_ok (dict_get data ''certifications'' PNone)"
  unfolding skills_certs_html_def exc_bind2_succeeds
  by (simp add: skills_text_succeeds joined_or_na_succeeds)

lemma tail_html_succeeds:
  "(\<exists>r. tail_html data = Inr r) \<longleftrightarrow>
   str_items_ok (dict_get data ''languages'' PNone) \<and> str_items_ok (dict_get data ''hobbies'' PNone)"
  unfolding tail_html_def exc_bind2_succeeds
  by (simp add: joined_or_na_succeeds)

end
