(* ===== verification/ResumeLayout.thy ===== *)
theory ResumeLayout
  imports ResumeHtml
begin

text \<open>
  The shape of the document the renderer promises: a preamble with the title, a contact
  line of labelled fields joined by \<^verbatim>\<open> | \<close>, then titled sections in a fixed order,
  each a \<^verbatim>\<open><div class="section">\<close> holding a heading and either one paragraph or a
  run of entry blocks, separated by blank lines, then the closing tags.  The renderer
  refines this layout: \<open>resume_layout_eq\<close> computes its output as the layout
  of \<open>resume_sections\<close>, raising exactly what \<open>resume_sections\<close> raises.
\<close>

datatype section_body = Para string | Blocks string

definition section_html :: "string \<times> section_body \<Rightarrow> string" where
  "section_html sec = (case sec of (title, body) \<Rightarrow>
     ''            <div class=\"section\">'' @ nl @ ''                <h2>'' @ title @ ''</h2>'' @ nl
     @ (case body of
          Para p \<Rightarrow> ''                <p>'' @ p @ ''</p>'' @ nl
        | Blocks b \<Rightarrow> ''    '' @ b @ nl)
     @ ''            </div>'')"

definition contact_html :: "(string \<times> string) list \<Rightarrow> string" where
  "contact_html cs =
     ''                '' @ join_with ('' | '' @ nl @ ''                '')
       (map (\<lambda>(label, v). ''<span>'' @ label @ '': '' @ v @ ''</span>'') cs)"

definition doc_preamble :: "string \<Rightarrow> string" where
  "doc_preamble name = text_lines
    [ [],
      ''    <!DOCTYPE html>'',
      ''    <html lang=\"en\">'',
      ''    <head>'',
      ''        <meta charset=\"UTF-8\">'',
      ''        <meta name=\"viewport\" content=\"width=device-width, initial-scale=1.0\">'',
      ''        <title>Resume - '' @ name @ ''</title>'',
      ''        <style>'',
      ''            body { font-family: Arial, sans-serif; line-height: 1.6; color: #333; }'',
      ''            .container { max-width: 800px; margin: 0 auto; padding: 20px; }'',
      ''            h1 { text-align: center; font-size: 36px; margin-bottom: 10px; color: #000; }'',
      ''            .contact-info { text-align: center; margin-bottom: 20px; }'',
      ''            .section { margin-bottom: 20px; }'',
      ''            .section h2 { font-size: 20px; color: #000; border-bottom: 2px solid #000; padding-bottom: 5px; margin-bottom: 10px; font-weight: bold; }'',
      ''            .experience, .education, .project { margin-bottom: 15px; }'',
      ''            .experience h3, .education h3, .project h3 { margin: 0; font-size: 18px; }'',
      ''            .experience p, .education p, .project p { margin: 5px 0; }'',
      ''            .skills, .certifications, .languages, .hobbies { margin-bottom: 10px; }'',
      ''            ul { padding-left: 20px; }'',
      ''        </style>'',
      ''    </head>'',
      ''    <body>'',
      ''        <div class=\"container\">'',
      ''            <h1>'' @ name @ ''</h1>'',
      ''            <div class=\"contact-info\">'',
      [] ]"

definition doc_end :: string where
  "doc_end = nl @ ''        </div>'' @ nl @ ''    </body>'' @ nl @ ''    </html>'' @ nl @ ''    ''"

definition document_html :: "string \<Rightarrow> (string \<times> string) list \<Rightarrow> (string \<times> section_body) list \<Rightarrow> string" where
  "document_html name contacts secs =
     doc_preamble name @ contact_html contacts @ nl @ ''            </div>'' @ nl @ nl
     @ join_with (nl @ nl) (map section_html secs) @ doc_end"

definition section_titles :: "string list" where
  "section_titles = [''Professional Summary'', ''Work Experience'', ''Education'', ''Skills'',
     ''Certifications'', ''Projects'', ''Languages'', ''Hobbies and Interests'']"

subsection \<open>The renderer's fields in this layout\<close>

definition contact_fields :: "pydict \<Rightarrow> (string \<times> string) list" where
  "contact_fields data =
     [(''Phone'', get_str data ''phone'' []), (''Email'', get_str data ''email'' []),
      (''LinkedIn'', get_str data ''linkedin'' ''N/A''),
      (''Portfolio'', get_str data ''portfolio'' ''N/A''),
      (''Address'', get_str data ''address'' ''N/A'')]"

text \<open>The dict entries a loop guarded by \<^verbatim>\<open>isinstance(..., list)\<close> visits.\<close>

definition field_dicts :: "pydict \<Rightarrow> string \<Rightarrow> pydict list" where
  "field_dicts data k = (case dict_get data k (PList []) of PList xs \<Rightarrow> dict_items xs | _ \<Rightarrow> [])"

definition section_list ::
  "string \<Rightarrow> string \<Rightarrow> string \<Rightarrow> string \<Rightarrow> string \<Rightarrow> string \<Rightarrow> string \<Rightarrow> string
   \<Rightarrow> (string \<times> section_body) list" where
  "section_list summary exps edus skills certs projs languages hobbies =
     [(''Professional Summary'', Para summary), (''Work Experience'', Blocks exps),
      (''Education'', Blocks edus), (''Skills'', Para skills), (''Certifications'', Para certs),
      (''Projects'', Blocks projs), (''Languages'', Para languages),
      (''Hobbies and Interests'', Para hobbies)]"

definition resume_sections :: "pydict \<Rightarrow> py_exc + (string \<times> section_body) list" where
  "resume_sections data =
     exc_bind (exc_map exp_block (field_dicts data ''experiences'')) (\<lambda>exps.
     exc_bind (skills_text data) (\<lambda>skills.
     exc_bind (joined_or_na data ''certifications'') (\<lambda>certs.
     exc_bind (joined_or_na data ''languages'') (\<lambda>languages.
     exc_bind (joined_or_na data ''hobbies'') (\<lambda>hobbies.
       Inr (section_list (get_str data ''summary'' []) (concat exps)
              (concat (map edu_block (field_dicts data ''education''))) skills certs
              (concat (map proj_block (field_dicts data ''projects''))) languages hobbies))))))"

subsection \<open>Refinement\<close>

lemma template_layout:
  "head_html data @ exps @ education_open @ edus @ skills_certs_template skills certs @ projs
     @ tail_template languages hobbies =
   document_html (get_str data ''name'' []) (contact_fields data)
     (section_list (get_str data ''summary'' []) exps edus skills certs projs languages hobbies)"
  by (simp add: head_html_def education_open_def skills_certs_template_def tail_template_def
        document_html_def doc_preamble_def contact_html_def contact_fields_def section_list_def
        section_html_def doc_end_def text_lines_def nl_def)

lemma work_experience_html_eq:
  "work_experience_html data h =
     exc_bind (exc_map exp_block (field_dicts data ''experiences'')) (\<lambda>bs. Inr (h @ concat bs))"
  by (simp add: work_experience_html_def field_dicts_def exp_loop_eq split: pyval.split)

lemma education_html_eq:
  "education_html data h = h @ concat (map edu_block (field_dicts data ''education''))"
  by (simp add: education_html_def field_dicts_def edu_loop_eq split: pyval.split)

lemma projects_html_eq:
  "projects_html data h = h @ concat (map proj_block (field_dicts data ''projects''))"
  by (simp add: projects_html_def field_dicts_def proj_loop_eq split: pyval.split)

lemma resume_sections_titles: "resume_sections data = Inr secs \<Longrightarrow> map fst secs = section_titles"
  by (auto simp: resume_sections_def exc_bind_eq_Inr section_list_def section_titles_def)

lemma resume_layout_eq:
  "generate_resume_html (PDict data) =
     exc_bind (resume_sections data)
       (\<lambda>secs. Inr (document_html (get_str data ''name'' []) (contact_fields data) secs))"
  unfolding generate_resume_html_dict work_experience_html_eq education_html_eq projects_html_eq
    skills_certs_html_def tail_html_def resume_sections_def
  by (simp add: exc_bind_assoc template_layout)

lemma empty_record_html:
  "generate_resume_html (PDict []) =
     Inr (document_html []
       [(''Phone'', []), (''Email'', []), (''LinkedIn'', ''N/A''), (''Portfolio'', ''N/A''),
        (''Address'', ''N/A'')]
       (section_list [] [] [] [] ''N/A'' [] ''N/A'' ''N/A''))"
  by (simp add: resume_layout_eq resume_sections_def field_dicts_def skills_text_def
        joined_or_na_def contact_fields_def get_str_def dict_get_def)

end
