(* ===== verification/RendererProps.thy ===== *)
theory RendererProps
  imports ResumeFields
begin

text \<open>
  The renderer's properties: the layout it refines (C1), the exact condition under which it
  raises (C2), the fixed eight sections (C3), the entries and keys it reads (C4, C5), its
  exceptions (C6, C7), and the unescaped summary (C8).  The definitions and lemmas they use are in \<open>ResumeHtml\<close>,
  \<open>ResumeLayout\<close> and \<open>ResumeFields\<close>.
\<close>

text \<open>
  C1: on a dict, the renderer's result is the layout of \<open>resume_sections\<close>: the
  preamble titled with \<^verbatim>\<open>name\<close>, the five contact fields, and the eight sections built
  from the record, with the same exception, raised at the same field, when one is raised.
\<close>

theorem generate_resume_html_layout:
  "generate_resume_html (PDict data) =
     exc_bind (resume_sections data)
       (\<lambda>secs. Inr (document_html (get_str data ''name'' []) (contact_fields data) secs))"
  by (rule resume_layout_eq)

text \<open>
  C2: the renderer returns a document exactly when its argument is a dict, every
  experience entry's achievements are iterable, and the four list fields hold only strings;
  in every other case it raises.
\<close>

theorem generate_resume_html_succeeds:
  "(\<exists>html. generate_resume_html v = Inr html) \<longleftrightarrow> render_ok v"
proof (cases v)
  case (PDict data)
  have "(\<exists>html. generate_resume_html (PDict data) = Inr html) \<longleftrightarrow> render_ok (PDict data)"
    unfolding generate_resume_html_dict exc_bind3_succeeds
    by (simp add: work_experience_html_succeeds skills_certs_html_succeeds tail_html_succeeds)
  then show ?thesis unfolding PDict .
qed simp_all

text \<open>
  C3: every document the renderer returns consists of exactly the eight sections
  Professional Summary, Work Experience, Education, Skills, Certifications, Projects,
  Languages, Hobbies and Interests, in this order.
\<close>

theorem generate_resume_html_sections:
  assumes "generate_resume_html v = Inr html"
  shows "\<exists>name contacts secs. html = document_html name contacts secs \<and> map fst secs = section_titles"
proof (cases v)
  case (PDict data)
  with assms obtain secs where secs: "resume_sections data = Inr secs"
    and html: "html = document_html (get_str data ''name'' []) (contact_fields data) secs"
    by (auto simp: resume_layout_eq exc_bind_eq_Inr)
  from secs have "map fst secs = section_titles" by (rule resume_sections_titles)
  with html show ?thesis by blast
qed (use assms in simp_all)

theorem generate_resume_html_sections_witness:
  "\<exists>html name contacts secs. generate_resume_html (PDict []) = Inr html
     \<and> html = document_html name contacts secs \<and> map fst secs = section_titles"
proof -
  obtain html where h: "generate_resume_html (PDict []) = Inr html"
    using empty_record_html by blast
  from generate_resume_html_sections [OF h] h show ?thesis by blast
qed

text \<open>
  C4: in \<^verbatim>\<open>experiences\<close>, \<^verbatim>\<open>education\<close> and \<^verbatim>\<open>projects\<close>, items that are not
  dicts are skipped: removing them does not change the result, document or exception.
\<close>

theorem generate_resume_html_skips_non_dicts:
  assumes "k \<in> set entry_keys"
  shows "generate_resume_html (PDict ((k, PList (filter is_dict xs)) # d)) =
         generate_resume_html (PDict ((k, PList xs) # d))"
proof (rule render_cong)
  show "\<forall>k' \<in> set scalar_keys. dict_get ((k, PList (filter is_dict xs)) # d) k' =
                               dict_get ((k, PList xs) # d) k'"
    using assms by (auto intro: dict_get_other_key dest: scalar_entry_keys_distinct)
  show "\<forall>k' \<in> set entry_keys. field_dicts ((k, PList (filter is_dict xs)) # d) k' =
                              field_dicts ((k, PList xs) # d) k'"
    by (auto simp: field_dicts_def dict_get_def)
qed

theorem generate_resume_html_skips_non_dicts_witness:
  "generate_resume_html (PDict [(''experiences'', PList (filter is_dict [PDict [], PStr ''x'']))]) =
   generate_resume_html (PDict [(''experiences'', PList [PDict [], PStr ''x''])])"
  using generate_resume_html_skips_non_dicts [of "''experiences''" "[PDict [], PStr ''x'']" "[]"]
  by (simp add: entry_keys_def)

text \<open>
  C5: the renderer reads eleven scalar keys and, of the three entry lists, only their dict
  entries: two records that agree there render identically (same document, same exception).
\<close>

theorem generate_resume_html_reads:
  assumes "\<forall>k \<in> set scalar_keys. dict_get d1 k = dict_get d2 k"
    and "\<forall>k \<in> set entry_keys. field_dicts d1 k = field_dicts d2 k"
  shows "generate_resume_html (PDict d1) = generate_resume_html (PDict d2)"
  using assms by (rule render_cong)

theorem generate_resume_html_reads_witness:
  "generate_resume_html (PDict [(''name'', PStr ''Ann''), (''age'', PInt 40)]) =
   generate_resume_html (PDict [(''name'', PStr ''Ann'')])"
  using generate_resume_html_reads [of "[(''name'', PStr ''Ann''), (''age'', PInt 40)]"
      "[(''name'', PStr ''Ann'')]"]
  by (simp add: scalar_keys_def entry_keys_def field_dicts_def dict_get_def fun_eq_iff)

text \<open>
  C6: when the experiences raise nothing and \<^verbatim>\<open>skills\<close> is a list whose first
  non-string item has index \<open>i\<close>, the renderer raises CPython's \<open>TypeError\<close>
  "sequence item i: expected str instance, T found".
\<close>

theorem generate_resume_html_skills_error:
  assumes "experiences_ok data"
    and "dict_get data ''skills'' PNone = PList (map PStr ss @ w # ws)"
    and "\<not> is_str w"
  shows "generate_resume_html (PDict data) =
           Inl (TypeError (''sequence item '' @ nat_str (length ss) @ '': expected str instance, ''
                           @ type_name w @ '' found''))"
proof -
  have "dict_get data ''skills'' (PList []) = PList (map PStr ss @ w # ws)"
    using assms(2) by (rule dict_get_present)
  with assms(2,3) have sk: "skills_text data =
      Inl (TypeError (''sequence item '' @ nat_str (length ss) @ '': expected str instance, ''
                      @ type_name w @ '' found''))"
    by (simp add: skills_text_def str_join_def collect_strs_first_error list_all_iff)
  obtain r where "work_experience_html data (head_html data) = Inr r"
    using assms(1) work_experience_html_succeeds by blast
  then show ?thesis by (simp add: generate_resume_html_dict skills_certs_html_def sk)
qed

theorem generate_resume_html_skills_error_witness:
  "generate_resume_html (PDict [(''skills'', PList [PStr ''Python'', PInt 3])]) =
     Inl (TypeError ''sequence item 1: expected str instance, int found'')"
proof -
  have "experiences_ok [(''skills'', PList [PStr ''Python'', PInt 3])]"
    by (simp add: experiences_ok_def dict_get_def)
  from generate_resume_html_skills_error [OF this, of "[''Python'']" "PInt 3" "[]"]
  show ?thesis by (simp add: dict_get_def nat_str_small)
qed

text \<open>
  C7: when the first dict entry of \<^verbatim>\<open>experiences\<close> has \<^verbatim>\<open>achievements\<close> that
  are not iterable (a number, a boolean, None), the renderer raises \<open>TypeError\<close>
  "'T' object is not iterable".
\<close>

theorem generate_resume_html_achievements_error:
  assumes "field_dicts data ''experiences'' = exp # exps"
    and "\<not> exp_entry_ok exp"
  shows "generate_resume_html (PDict data) =
     Inl (TypeError (quoted (type_name (dict_get exp ''achievements'' (PList []))) @ '' object is not iterable''))"
proof -
  have "exp_block exp =
     Inl (TypeError (quoted (type_name (dict_get exp ''achievements'' (PList []))) @ '' object is not iterable''))"
    using assms(2) by (simp add: exp_block_def achievements_html_def exp_entry_ok_def py_iter_fails)
  with assms(1) show ?thesis
    by (simp add: generate_resume_html_dict work_experience_html_eq)
qed

theorem generate_resume_html_achievements_error_witness:
  "generate_resume_html (PDict [(''experiences'', PList [PDict [(''achievements'', PNone)]])]) =
     Inl (TypeError (CHR 0x27 # ''NoneType' object is not iterable''))"
proof -
  have "field_dicts [(''experiences'', PList [PDict [(''achievements'', PNone)]])] ''experiences''
          = [[(''achievements'', PNone)]]"
    by (simp add: field_dicts_def dict_get_def)
  moreover have "\<not> exp_entry_ok [(''achievements'', PNone)]"
    by (simp add: exp_entry_ok_def dict_get_def)
  ultimately show ?thesis
    using generate_resume_html_achievements_error by (simp add: dict_get_def quoted_def)
qed

text \<open>
  C8: a string \<^verbatim>\<open>summary\<close> appears in the rendered document character for
  character between \<^verbatim>\<open><p>\<close> and \<^verbatim>\<open></p>\<close>: markup in it is not escaped.
\<close>

theorem generate_resume_html_summary_verbatim:
  assumes "generate_resume_html (PDict data) = Inr html"
    and "dict_get data ''summary'' (PStr []) = PStr s"
  shows "sublist (''<p>'' @ s @ ''</p>'') html"
  using rendered_summary_layout [OF assms] summary_in_document by metis

theorem generate_resume_html_summary_verbatim_witness:
  "\<exists>html. generate_resume_html (PDict [(''summary'', PStr ''<script>alert(1)</script>'')]) = Inr html
     \<and> sublist ''<p><script>alert(1)</script></p>'' html"
proof -
  obtain html where h: "generate_resume_html (PDict [(''summary'', PStr ''<script>alert(1)</script>'')]) = Inr html"
    using summary_only_html by blast
  have "dict_get [(''summary'', PStr ''<script>alert(1)</script>'')] ''summary'' (PStr []) =
          PStr ''<script>alert(1)</script>''"
    by (simp add: dict_get_def)
  from generate_resume_html_summary_verbatim [OF h this] h show ?thesis by auto
qed

end
