(* ===== verification/PyRepr.thy ===== *)
theory PyRepr
  imports PyValue
begin

text \<open>
  Reading back what \<open>repr\<close> prints.  \<open>lit_body\<close> reads the body of a Python string
  literal built from the escapes \<open>repr\<close> emits (\<^verbatim>\<open>\\ \' \" \t \n \r \xHH\<close>; any other
  escape is rejected) up to its closing quote and returns the text after it.
  \<open>parse_nat\<close> and \<open>parse_int\<close> read a decimal integer with an optional minus sign.
  \<open>parse_val\<close>, \<open>parse_items\<close> and \<open>parse_entries\<close> read a whole value as \<open>repr\<close>
  prints it (the displays of \<^verbatim>\<open>ast.literal_eval\<close> that \<open>repr\<close> can produce), with
  fuel.  The lemmas read back one escaped character, one literal, one integer and the
  items of a list or dict display; the round trip built from them is in \<open>RuntimeProps\<close>.
\<close>

definition hex_val :: "char \<Rightarrow> nat option" where
  "hex_val c =
     (let n = of_char c :: nat in
      if 48 \<le> n \<and> n < 58 then Some (n - 48)
      else if 97 \<le> n \<and> n < 103 then Some (n - 87)
      else if 65 \<le> n \<and> n < 71 then Some (n - 55)
      else None)"

fun lit_body :: "char \<Rightarrow> string \<Rightarrow> (string \<times> string) option" where
  "lit_body q [] = None"
| "lit_body q (c # cs) =
     (if c = q then Some ([], cs)
      else if c = CHR 0x5C then
        (case cs of
           [] \<Rightarrow> None
         | d # ds \<Rightarrow>
             if d = CHR 0x5C \<or> d = CHR 0x27 \<or> d = CHR 0x22 then map_option (apfst (Cons d)) (lit_body q ds)
             else if d = CHR ''t'' then map_option (apfst (Cons (CHR 0x09))) (lit_body q ds)
             else if d = CHR ''n'' then map_option (apfst (Cons (CHR 0x0A))) (lit_body q ds)
             else if d = CHR ''r'' then map_option (apfst (Cons (CHR 0x0D))) (lit_body q ds)
             else if d = CHR ''x'' then
               (case ds of
                  h1 # h2 # es \<Rightarrow>
                    (case (hex_val h1, hex_val h2) of
                       (Some a, Some b) \<Rightarrow> map_option (apfst (Cons (char_of (16 * a + b)))) (lit_body q es)
                     | _ \<Rightarrow> None)
                | _ \<Rightarrow> None)
             else None)
      else map_option (apfst (Cons c)) (lit_body q cs))"

definition is_digit :: "char \<Rightarrow> bool" where
  "is_digit c = (48 \<le> (of_char c :: nat) \<and> (of_char c :: nat) < 58)"

definition read_nat :: "string \<Rightarrow> nat option" where
  "read_nat s = (if s \<noteq> [] \<and> list_all is_digit s
                 then Some (foldl (\<lambda>a c. 10 * a + (of_char c - 48)) 0 s) else None)"

definition parse_nat :: "string \<Rightarrow> (nat \<times> string) option" where
  "parse_nat s = map_option (\<lambda>n. (n, dropWhile is_digit s)) (read_nat (takeWhile is_digit s))"

definition parse_int :: "string \<Rightarrow> (int \<times> string) option" where
  "parse_int s = (case s of
       c # ds \<Rightarrow> if c = CHR ''-'' then map_option (apfst (\<lambda>n. - int n)) (parse_nat ds)
                else map_option (apfst int) (parse_nat s)
     | [] \<Rightarrow> None)"

text \<open>
  A reader for the whole of what \<open>repr\<close> prints for a field value: a string literal, an
  integer, \<^verbatim>\<open>True\<close>, \<^verbatim>\<open>False\<close>, \<^verbatim>\<open>None\<close>, a list display \<^verbatim>\<open>[v, ...]\<close> and a dict display
  \<^verbatim>\<open>{'k': v, ...}\<close> with string keys.  Each reader returns the value and the text after
  it; the fuel \<open>n\<close> bounds the nesting and the number of items, so every call returns.
\<close>

type_synonym fuel = nat

fun parse_val :: "fuel \<Rightarrow> string \<Rightarrow> (pyval \<times> string) option"
and parse_items :: "fuel \<Rightarrow> string \<Rightarrow> (pyval list \<times> string) option"
and parse_entries :: "fuel \<Rightarrow> string \<Rightarrow> ((string \<times> pyval) list \<times> string) option" where
  "parse_val 0 s = None"
| "parse_val (Suc n) s =
     (case s of
        [] \<Rightarrow> None
      | c # cs \<Rightarrow>
          if c = CHR 0x27 \<or> c = CHR 0x22 then map_option (apfst PStr) (lit_body c cs)
          else if c = CHR ''['' then map_option (apfst PList) (parse_items n cs)
          else if c = CHR ''{'' then map_option (apfst PDict) (parse_entries n cs)
          else if take 4 s = ''True'' then Some (PBool True, drop 4 s)
          else if take 5 s = ''False'' then Some (PBool False, drop 5 s)
          else if take 4 s = ''None'' then Some (PNone, drop 4 s)
          else map_option (apfst PInt) (parse_int s))"
| "parse_items 0 s = None"
| "parse_items (Suc n) s =
     (if take 1 s = '']'' then Some ([], drop 1 s)
      else case parse_val n s of
             None \<Rightarrow> None
           | Some (v, r) \<Rightarrow>
               if take 1 r = '']'' then Some ([v], drop 1 r)
               else if take 2 r = '', '' then map_option (apfst (Cons v)) (parse_items n (drop 2 r))
               else None)"
| "parse_entries 0 s = None"
| "parse_entries (Suc n) s =
     (if take 1 s = ''}'' then Some ([], drop 1 s)
      else case s of
             [] \<Rightarrow> None
           | q # cs \<Rightarrow>
               if q = CHR 0x27 \<or> q = CHR 0x22 then
                 (case lit_body q cs of
                    None \<Rightarrow> None
                  | Some (k, r) \<Rightarrow>
                      if take 2 r = '': '' then
                        (case parse_val n (drop 2 r) of
                           None \<Rightarrow> None
                         | Some (v, r') \<Rightarrow>
                             if take 1 r' = ''}'' then Some ([(k, v)], drop 1 r')
                             else if take 2 r' = '', '' then
                               map_option (apfst (Cons (k, v))) (parse_entries n (drop 2 r'))
                             else None)
                      else None)
               else None)"

subsection \<open>Characters and digits\<close>

lemma of_char_char_of_small: "(n::nat) < 256 \<Longrightarrow> of_char (char_of n :: char) = n"
  by (simp add: of_char_of)

lemma hex_val_hex_digit: "k < 16 \<Longrightarrow> hex_val (hex_digit k) = Some k"
  by (simp add: hex_val_def hex_digit_def of_char_char_of_small Let_def)

lemma of_char_digit_char: "d < 10 \<Longrightarrow> of_char (digit_char d) = 48 + d"
  by (simp add: digit_char_def of_char_char_of_small)

lemma repr_quote_cases: "repr_quote s = CHR 0x27 \<or> repr_quote s = CHR 0x22"
  by (simp add: repr_quote_def)

lemma lit_body_repr_char:
  assumes q: "q = CHR 0x27 \<or> q = CHR 0x22"
  shows "lit_body q (repr_char q c @ rest) = map_option (apfst (Cons c)) (lit_body q rest)"
proof -
  define n where "n = (of_char c :: nat)"
  have n256: "n < 256" by (simp add: n_def)
  have cn: "c = char_of n" by (simp add: n_def)
  have hex: "hex_val (hex_digit (n div 16)) = Some (n div 16)" "hex_val (hex_digit (n mod 16)) = Some (n mod 16)"
    using n256 by (simp_all add: hex_val_hex_digit)
  have inv: "char_of (16 * (n div 16) + n mod 16) = c"
    by (simp add: cn)
  show ?thesis
    using q hex inv
    by (auto simp: repr_char_def Let_def n_def[symmetric])
qed

lemma lit_body_repr_chars:
  "q = CHR 0x27 \<or> q = CHR 0x22 \<Longrightarrow> lit_body q (concat (map (repr_char q) s) @ q # rest) = Some (s, rest)"
  by (induction s) (auto simp: lit_body_repr_char)

lemma str_repr_split: "\<exists>q body. str_repr s = q # body \<and> (q = CHR 0x27 \<or> q = CHR 0x22)
                         \<and> (\<forall>rest. lit_body q (body @ rest) = Some (s, rest))"
  using repr_quote_cases [of s] by (auto simp: str_repr_def Let_def lit_body_repr_chars)

lemma read_nat_append_digit:
  "read_nat ds = Some m \<Longrightarrow> d < 10 \<Longrightarrow> read_nat (ds @ [digit_char d]) = Some (10 * m + d)"
  by (auto simp: read_nat_def is_digit_def of_char_digit_char split: if_splits)

lemma read_nat_nat_str: "read_nat (nat_str n) = Some n"
proof (induction n rule: nat_str.induct)
  case (1 n)
  show ?case
  proof (cases "n < 10")
    case True
    then show ?thesis by (simp add: nat_str.simps read_nat_def is_digit_def of_char_digit_char)
  next
    case False
    then have "read_nat (nat_str n) = Some (10 * (n div 10) + n mod 10)"
      using 1 by (simp add: nat_str.simps [of n] read_nat_append_digit)
    then show ?thesis by simp
  qed
qed

lemma nat_str_digits: "list_all is_digit (nat_str n) \<and> nat_str n \<noteq> []"
  using read_nat_nat_str [of n] by (simp add: read_nat_def split: if_splits)

lemma nat_str_head: "\<exists>c cs. nat_str n = c # cs \<and> is_digit c"
  using nat_str_digits [of n] by (cases "nat_str n") auto

lemma parse_nat_nat_str:
  "takeWhile is_digit rest = [] \<Longrightarrow> parse_nat (nat_str n @ rest) = Some (n, rest)"
proof -
  assume stop: "takeWhile is_digit rest = []"
  have all: "\<And>x. x \<in> set (nat_str n) \<Longrightarrow> is_digit x"
    using nat_str_digits [of n] by (simp add: list_all_iff)
  have "dropWhile is_digit rest = rest"
    using stop by (cases rest) (auto split: if_splits)
  then show ?thesis
    using stop all by (simp add: parse_nat_def takeWhile_append2 dropWhile_append2 read_nat_nat_str)
qed

lemma digit_not_minus: "is_digit c \<Longrightarrow> c \<noteq> CHR ''-''"
  by (auto simp: is_digit_def)

lemma parse_int_int_str:
  "takeWhile is_digit rest = [] \<Longrightarrow> parse_int (int_str i @ rest) = Some (i, rest)"
proof (cases "i < 0")
  case True
  assume stop: "takeWhile is_digit rest = []"
  with True show ?thesis by (simp add: int_str_def parse_int_def parse_nat_nat_str)
next
  case False
  assume stop: "takeWhile is_digit rest = []"
  obtain c cs where h: "nat_str (nat i) = c # cs" and "is_digit c" using nat_str_head by blast
  then have "c \<noteq> CHR ''-''" by (simp add: digit_not_minus)
  moreover have "parse_nat (c # cs @ rest) = Some (nat i, rest)"
    using parse_nat_nat_str [OF stop, of "nat i"] h by simp
  ultimately show ?thesis
    using False h by (simp add: int_str_def parse_int_def)
qed


subsection \<open>Reading back repr of nested values\<close>

lemma int_str_head: "\<exists>c cs. int_str i = c # cs \<and> (c = CHR ''-'' \<or> is_digit c)"
  using nat_str_head [of "nat i"] nat_str_head [of "nat (- i)"] by (auto simp: int_str_def)

lemma number_start:
  "c = CHR ''-'' \<or> is_digit c \<Longrightarrow>
   c \<noteq> CHR 0x27 \<and> c \<noteq> CHR 0x22 \<and> c \<noteq> CHR ''['' \<and> c \<noteq> CHR ''{'' \<and> c \<noteq> CHR '']'' \<and> c \<noteq> CHR ''}''
   \<and> c \<noteq> CHR ''T'' \<and> c \<noteq> CHR ''F'' \<and> c \<noteq> CHR ''N''"
  by (auto simp: is_digit_def)

lemma punct_not_digit [simp]:
  "\<not> is_digit CHR '']''" "\<not> is_digit CHR ''}''" "\<not> is_digit CHR '',''"
  by (simp_all add: is_digit_def)

lemma parse_val_int_str:
  "takeWhile is_digit rest = [] \<Longrightarrow> parse_val (Suc n) (int_str i @ rest) = Some (PInt i, rest)"
  using int_str_head [of i] number_start parse_int_int_str [of rest i]
  by (fastforce simp del: parse_items.simps parse_entries.simps)

lemma py_repr_head: "\<exists>c cs. py_repr v = c # cs \<and> c \<noteq> CHR '']'' \<and> c \<noteq> CHR ''}''"
proof (cases v)
  case (PStr s)
  then show ?thesis using str_repr_split [of s] by auto
next
  case (PInt i)
  then show ?thesis using int_str_head [of i] number_start by fastforce
qed auto

lemma parse_items_reprs:
  assumes IH: "\<And>x n rest. x \<in> set xs \<Longrightarrow> size x < n \<Longrightarrow> takeWhile is_digit rest = [] \<Longrightarrow>
                 parse_val n (py_repr x @ rest) = Some (x, rest)"
    and fuel: "size_list size xs < m"
  shows "parse_items m (join_with '', '' (map py_repr xs) @ CHR '']'' # rest) = Some (xs, rest)"
  using assms
proof (induction xs arbitrary: m)
  case Nil
  then obtain m' where "m = Suc m'" by (cases m) auto
  then show ?case by simp
next
  case (Cons x xs)
  then obtain m' where m: "m = Suc m'" by (cases m) auto
  obtain c cs where h: "py_repr x = c # cs" "c \<noteq> CHR '']''" using py_repr_head [of x] by blast
  have x: "size x < m'" using Cons.prems(2) m by simp
  show ?case
  proof (cases "xs = []")
    case True
    have "parse_val m' (py_repr x @ CHR '']'' # rest) = Some (x, CHR '']'' # rest)"
      using Cons.prems(1) x by simp
    with True m h show ?thesis by simp
  next
    case False
    have "parse_val m' (py_repr x @ '', '' @ join_with '', '' (map py_repr xs) @ CHR '']'' # rest) =
          Some (x, '', '' @ join_with '', '' (map py_repr xs) @ CHR '']'' # rest)"
      using Cons.prems(1) x by simp
    moreover have "parse_items m' (join_with '', '' (map py_repr xs) @ CHR '']'' # rest) = Some (xs, rest)"
      using Cons.IH Cons.prems m by simp
    ultimately show ?thesis using False m h by (simp add: join_with_Cons)
  qed
qed

lemma parse_entries_reprs:
  assumes IH: "\<And>k v n rest. (k, v) \<in> set d \<Longrightarrow> size v < n \<Longrightarrow> takeWhile is_digit rest = [] \<Longrightarrow>
                 parse_val n (py_repr v @ rest) = Some (v, rest)"
    and fuel: "size_list (size_prod (\<lambda>_. 0) size) d < m"
  shows "parse_entries m (join_with '', '' (map (\<lambda>(k, v). str_repr k @ '': '' @ py_repr v) d) @ CHR ''}'' # rest)
         = Some (d, rest)"
  using assms
proof (induction d arbitrary: m)
  case Nil
  then obtain m' where "m = Suc m'" by (cases m) auto
  then show ?case by simp
next
  case (Cons e d)
  obtain k v where e: "e = (k, v)" by (cases e)
  from Cons obtain m' where m: "m = Suc m'" by (cases m) auto
  obtain q body where q: "str_repr k = q # body" "q = CHR 0x27 \<or> q = CHR 0x22"
    and lit: "\<And>r. lit_body q (body @ r) = Some (k, r)" using str_repr_split [of k] by blast
  have v: "size v < m'" using Cons.prems(2) m e by simp
  let ?es = "join_with '', '' (map (\<lambda>(k, v). str_repr k @ '': '' @ py_repr v) d)"
  show ?case
  proof (cases "d = []")
    case True
    have "parse_val m' (py_repr v @ CHR ''}'' # rest) = Some (v, CHR ''}'' # rest)"
      using Cons.prems(1) [of k v] v e by simp
    with True m q lit e show ?thesis by auto
  next
    case False
    have "parse_val m' (py_repr v @ '', '' @ ?es @ CHR ''}'' # rest) = Some (v, '', '' @ ?es @ CHR ''}'' # rest)"
      using Cons.prems(1) [of k v] v e by simp
    moreover have "parse_entries m' (?es @ CHR ''}'' # rest) = Some (d, rest)"
      using Cons.prems m by (intro Cons.IH) auto
    ultimately show ?thesis using False m q lit e by (auto simp: join_with_Cons)
  qed
qed

end
