(* ===== verification/RuntimeProps.thy ===== *)
theory RuntimeProps
  imports PyStr PyRepr
begin

text \<open>
  Properties of the Python builtins the module calls: \<^verbatim>\<open>str.split\<close> is
  characterised by its leftmost cuts and returns a bounded number of pieces, CPython's
  index loop for it terminates and agrees with the recursive model, and \<open>repr\<close> of any
  field value reads back as the value.
\<close>

text \<open>
  C9: the pieces \<^verbatim>\<open>str.split\<close> returns are exactly the list that joins back to the
  text, whose last piece does not contain the separator, and whose other pieces, followed by
  all but the last character of the separator, do not contain it: every cut is at the
  leftmost remaining occurrence.
\<close>

theorem py_split_spec:
  assumes "sep \<noteq> []"
  shows "py_split s sep = Inr ps \<longleftrightarrow> split_spec sep s ps"
  using assms split_loop_spec [OF assms, of s] split_spec_unique [OF assms, of s ps]
  by (auto simp: py_split_def)

theorem py_split_spec_witness:
  "py_split ''a. b. c'' ''. '' = Inr [''a'', ''b'', ''c''] \<and> split_spec ''. '' ''a. b. c'' [''a'', ''b'', ''c'']"
proof -
  have s: "split_spec ''. '' ''a. b. c'' [''a'', ''b'', ''c'']"
    by (simp add: split_spec_def sublist_Cons_right)
  with py_split_spec [of "''. ''" "''a. b. c''" "[''a'', ''b'', ''c'']"] show ?thesis by simp
qed

text \<open>
  C13: \<^verbatim>\<open>s.split(sep)\<close> returns at most \<^verbatim>\<open>len(s) // len(sep) + 1\<close> pieces: each
  cut consumes a whole occurrence of the separator.
\<close>

theorem py_split_length:
  assumes "py_split s sep = Inr ps"
  shows "length ps \<le> length s div length sep + 1"
proof -
  from assms have sep: "sep \<noteq> []" and ps: "ps = split_loop sep s"
    by (auto simp: py_split_def split: if_splits)
  define m where "m = length sep"
  have m: "0 < m" using sep by (simp add: m_def)
  have e: "length s div m * m + length s mod m = length s" by (rule div_mult_mod_eq)
  have "length s mod m < m" using m by simp
  with e have "length s < (length s div m + 1) * m" unfolding distrib_right mult_1 by linarith
  then have "length ps * m < (length s div m + 2) * m"
    using split_loop_length [OF sep, of s] unfolding ps m_def [symmetric] by (simp add: algebra_simps)
  then have "length ps < length s div m + 2" by (rule mult_less_cancel2 [THEN iffD1, THEN conjunct2])
  then show ?thesis by (simp add: m_def)
qed

theorem py_split_length_witness:
  "py_split ''a. . b'' ''. '' = Inr [''a'', [], ''b''] \<and> length [''a'', [], ''b''] \<le> length ''a. . b'' div length ''. '' + 1"
proof -
  have p: "py_split ''a. . b'' ''. '' = Inr [''a'', [], ''b'']"
    by (simp add: py_split_def split_loop.simps)
  from py_split_length [OF p] p show ?thesis by blast
qed

text \<open>
  C17: with a nonempty separator, CPython's split loop over indices
  (\<^verbatim>\<open>STRINGLIB(split)\<close>, as \<open>split_index\<close>) terminates, and the pieces it returns are
  those of the recursive model \<open>split_loop\<close>.
\<close>

theorem split_index_returns:
  assumes "sep \<noteq> []"
  shows "split_index sep s = Some (split_loop sep s)"
proof -
  obtain i acc where w: "while_option (split_found sep s) (split_step sep s) (0, []) = Some (i, acc)"
    using split_index_terminates [OF assms, of s] by auto
  show ?thesis using split_index_result [OF assms w] w by (simp add: split_index_def)
qed

theorem split_index_returns_witness:
  "''. '' \<noteq> [] \<and> split_index ''. '' ''a. b'' = Some [''a'', ''b'']"
proof -
  have "split_loop ''. '' ''a. b'' = [''a'', ''b'']" by (simp add: split_loop.simps)
  with split_index_returns [of "''. ''" "''a. b''"] show ?thesis by simp
qed

text \<open>
  C18: \<open>repr\<close> of any field value, nested lists and dicts included (what line 65
  inserts for a value that is not a string), reads back as the same value, whatever text
  follows it unless that text continues a number: the renderer's text of a non-string
  value determines the value.  The reader needs fuel above the value's size.
\<close>

theorem py_repr_roundtrip:
  assumes "size v < n" and "takeWhile is_digit rest = []"
  shows "parse_val n (py_repr v @ rest) = Some (v, rest)"
  using assms
proof (induction v arbitrary: n rest rule: py_repr.induct)
  case (1 s)
  then obtain n' where "n = Suc n'" by (cases n) auto
  then show ?case using str_repr_split [of s] by auto
next
  case (2 i)
  then obtain n' where "n = Suc n'" by (cases n) auto
  then show ?case using 2 by (simp del: parse_val.simps add: parse_val_int_str)
next
  case (5 xs)
  then obtain n' where n: "n = Suc n'" by (cases n) auto
  have "parse_items n' (join_with '', '' (map py_repr xs) @ CHR '']'' # rest) = Some (xs, rest)"
    using 5 n by (intro parse_items_reprs) auto
  with n show ?case by simp
next
  case (6 d)
  then obtain n' where n: "n = Suc n'" by (cases n) auto
  have "parse_entries n' (join_with '', '' (map (\<lambda>(k, v). str_repr k @ '': '' @ py_repr v) d) @ CHR ''}'' # rest)
        = Some (d, rest)"
    using 6 n by (intro parse_entries_reprs) auto
  with n show ?case by simp
qed (auto elim: less_SucE simp: gr0_conv_Suc)

theorem py_repr_roundtrip_witness:
  "size (PList [PStr ''a\<newline>b'', PInt (-12), PDict [(''k'', PList [PBool True, PNone])]]) < 11
   \<and> takeWhile is_digit '', x'' = []
   \<and> parse_val 11 (py_repr (PList [PStr ''a\<newline>b'', PInt (-12), PDict [(''k'', PList [PBool True, PNone])]]) @ '', x'')
     = Some (PList [PStr ''a\<newline>b'', PInt (-12), PDict [(''k'', PList [PBool True, PNone])]], '', x'')"
  using py_repr_roundtrip [of "PList [PStr ''a\<newline>b'', PInt (-12), PDict [(''k'', PList [PBool True, PNone])]]" 11 "'', x''"]
  by simp

end
