(* ===== verification/Summary.thy ===== *)
theory Summary
  imports Complex_Main PyStr
begin

text \<open>
  \<^verbatim>\<open>generate_summary_from_experience\<close> (lines 4--15).  The T5 tokenizer and model
  of the \<^verbatim>\<open>transformers\<close> library are not repository code: they are the parameters
  of the model, a record \<open>t5_library\<close> of the five library entry points the function
  calls, over abstract tokenizer and model objects.  Loading and generation may raise;
  tokenising and decoding are pure.  The post-processing of lines 12--15 is modelled
  exactly: \<^verbatim>\<open>summary.split(". ")\<close> and \<^verbatim>\<open>"I worked as " + ". \n".join(...)\<close>.
\<close>

record gen_config =
  max_length :: nat
  min_length :: nat
  length_penalty :: real
  num_beams :: nat
  early_stopping :: bool

record ('tok, 'mdl) t5_library =
  tokenizer_from_pretrained :: "string \<Rightarrow> py_exc + 'tok"
  model_from_pretrained :: "string \<Rightarrow> py_exc + 'mdl"
  encode :: "'tok \<Rightarrow> string \<Rightarrow> nat \<Rightarrow> nat list"
  generate :: "'mdl \<Rightarrow> nat list \<Rightarrow> gen_config \<Rightarrow> py_exc + nat list list"
  decode :: "'tok \<Rightarrow> nat list \<Rightarrow> string"

text \<open>The generation arguments of line 9.\<close>

definition summary_config :: gen_config where
  "summary_config = \<lparr>max_length = 150, min_length = 30, length_penalty = 2, num_beams = 4,
     early_stopping = True\<rparr>"

text \<open>Lines 13--14.\<close>

definition format_summary :: "string \<Rightarrow> py_exc + string" where
  "format_summary summary =
     exc_bind (py_split summary ''. '') (\<lambda>sentences.
       Inr (''I worked as '' @ join_with (''. '' @ nl) sentences))"

text \<open>
  Lines 4--15: load both halves of \<^verbatim>\<open>t5-small\<close>, encode the prompt truncated to 512
  tokens, generate, take the first sequence of the batch (\<^verbatim>\<open>summary_ids[0]\<close>), decode
  it without special tokens, post-process.
\<close>

definition generate_summary_from_experience ::
  "('tok, 'mdl) t5_library \<Rightarrow> string \<Rightarrow> py_exc + string" where
  "generate_summary_from_experience lib work_experience =
     exc_bind (tokenizer_from_pretrained lib ''t5-small'') (\<lambda>tokenizer.
     exc_bind (model_from_pretrained lib ''t5-small'') (\<lambda>model.
     (let input_text = ''summarize: '' @ work_experience;
          input_ids = encode lib tokenizer input_text 512
      in exc_bind (generate lib model input_ids summary_config) (\<lambda>summary_ids.
           case summary_ids of
             [] \<Rightarrow> Inl (IndexError ''index 0 is out of bounds for dimension 0 with size 0'')
           | ids # _ \<Rightarrow> format_summary (decode lib tokenizer ids)))))"

text \<open>
  Reference for the post-processing: a line break after every \<^verbatim>\<open>". "\<close>, scanning from
  the left.
\<close>

fun add_breaks :: "string \<Rightarrow> string" where
  "add_breaks [] = []"
| "add_breaks [c] = [c]"
| "add_breaks (c # d # cs) =
     (if c = CHR ''.'' \<and> d = CHR '' '' then CHR ''.'' # CHR '' '' # nl @ add_breaks cs
      else c # add_breaks (d # cs))"

subsection \<open>The post-processing\<close>

lemma join_split_breaks: "join_with (''. '' @ nl) (split_loop ''. '' s) = add_breaks s"
proof (induction s rule: add_breaks.induct)
  case 1
  then show ?case by (simp add: split_loop_short)
next
  case (2 c)
  then show ?case by (simp add: split_loop_short)
next
  case (3 c d cs)
  show ?case
  proof (cases "c = CHR ''.'' \<and> d = CHR '' ''")
    case True
    then have "split_loop ''. '' (c # d # cs) = [] # split_loop ''. '' cs"
      using split_loop_match [of "''. ''" cs] by simp
    with True "3.IH"(1) show ?thesis by (simp add: join_with_Cons)
  next
    case False
    then have "\<not> prefix ''. '' (c # d # cs)" by auto
    then have "split_loop ''. '' (c # d # cs) =
        (c # hd (split_loop ''. '' (d # cs))) # tl (split_loop ''. '' (d # cs))"
      by (rule split_loop_no_match)
    moreover have "split_loop ''. '' (d # cs) \<noteq> []" by simp
    ultimately have "join_with (''. '' @ nl) (split_loop ''. '' (c # d # cs)) =
        c # join_with (''. '' @ nl) (split_loop ''. '' (d # cs))"
      by (cases "split_loop ''. '' (d # cs)") (simp_all add: join_with_Cons_head)
    moreover from False have "add_breaks (c # d # cs) = c # add_breaks (d # cs)" by auto
    ultimately show ?thesis using "3.IH"(2) [OF False] by (simp only:)
  qed
qed

lemma format_summary_eq: "format_summary s = Inr (''I worked as '' @ add_breaks s)"
proof -
  have "''. '' \<noteq> []" by simp
  then show ?thesis unfolding format_summary_def py_split_def
    by (simp only: if_False exc_bind_Inr join_split_breaks)
qed

subsection \<open>The whole function\<close>

end
