(* ===== verification/SummaryProps.thy ===== *)
theory SummaryProps
  imports Summary
begin

text \<open>
  The property of \<^verbatim>\<open>generate_summary_from_experience\<close> that does not depend on the
  library: its post-processing equals the reference \<open>add_breaks\<close>.
\<close>

text \<open>
  C10: the post-processing never raises and equals putting a line break after every
  \<^verbatim>\<open>". "\<close> of the summary and prefixing \<^verbatim>\<open>"I worked as "\<close>.
\<close>

theorem format_summary_breaks: "format_summary s = Inr (''I worked as '' @ add_breaks s)"
  by (rule format_summary_eq)

end
