(* ===== verification/ResumeCount.thy ===== *)
theory ResumeCount
  imports ResumeFields
begin

text \<open>
  Counting section blocks.  \<open>count_sub p s\<close> is the number of positions of \<open>s\<close> where
  \<open>p\<close> starts (overlapping occurrences count separately).  Every section of the layout
  opens with \<open>section_marker\<close>, and field text is inserted unescaped, so the markers in
  a document are at least the eight sections plus those in the summary text: a summary
  holding the marker adds a section block to the document.
\<close>

fun count_sub :: "string \<Rightarrow> string \<Rightarrow> nat" where
  "count_sub p [] = (if p = [] then 1 else 0)"
| "count_sub p (c # cs) = (if prefix p (c # cs) then 1 else 0) + count_sub p cs"

definition section_marker :: string where
  "section_marker = ''<div class=\"section\">''"

subsection \<open>Occurrences in joined text\<close>

lemma count_sub_append:
  "p \<noteq> [] \<Longrightarrow> count_sub p xs + count_sub p ys \<le> count_sub p (xs @ ys)"
proof (induction xs)
  case Nil
  then show ?case by simp
next
  case (Cons x xs)
  have "prefix p (x # xs) \<Longrightarrow> prefix p (x # xs @ ys)"
    by (metis append_Cons prefix_append)
  with Cons show ?case by auto
qed

lemma count_sub_append_right: "p \<noteq> [] \<Longrightarrow> count_sub p ys \<le> count_sub p (xs @ ys)"
  by (meson count_sub_append le_add2 order_trans)

lemma count_sub_append3:
  "p \<noteq> [] \<Longrightarrow> count_sub p ys \<le> count_sub p (xs @ ys @ zs)"
  by (meson count_sub_append count_sub_append_right le_add1 order_trans)

lemma count_sub_self: "1 \<le> count_sub p p"
  by (cases p) simp_all

lemma count_sub_join_with:
  "p \<noteq> [] \<Longrightarrow> sum_list (map (count_sub p) xs) \<le> count_sub p (join_with sep xs)"
proof (induction sep xs rule: join_with.induct)
  case (3 sep x y zs)
  have "count_sub p x + count_sub p (join_with sep (y # zs)) \<le> count_sub p (x @ sep @ join_with sep (y # zs))"
    using count_sub_append [OF 3(2), of x "sep @ join_with sep (y # zs)"]
      count_sub_append [OF 3(2), of sep "join_with sep (y # zs)"] by linarith
  with 3 show ?case by simp
qed simp_all

lemma section_marker_ne [simp]: "section_marker \<noteq> []"
  by (simp add: section_marker_def)

lemma section_html_markers:
  "1 + (case body of Para s \<Rightarrow> count_sub section_marker s | Blocks _ \<Rightarrow> 0)
     \<le> count_sub section_marker (section_html (t, body))"
proof -
  define lead where "lead = ''            ''"
  define rest where "rest = nl @ ''                <h2>'' @ t @ ''</h2>'' @ nl
     @ (case body of
          Para p \<Rightarrow> ''                <p>'' @ p @ ''</p>'' @ nl
        | Blocks b \<Rightarrow> ''    '' @ b @ nl)
     @ ''            </div>''"
  have h: "section_html (t, body) = lead @ section_marker @ rest"
    by (simp add: section_html_def lead_def rest_def section_marker_def)
  have r: "(case body of Para s \<Rightarrow> count_sub section_marker s | Blocks _ \<Rightarrow> 0) \<le> count_sub section_marker rest"
  proof (cases body)
    case (Para s)
    have "rest = (nl @ ''                <h2>'' @ t @ ''</h2>'' @ nl @ ''                <p>'') @ s @ (''</p>'' @ nl @ ''            </div>'')"
      by (simp add: rest_def Para)
    then have "count_sub section_marker s \<le> count_sub section_marker rest"
      by (metis count_sub_append3 section_marker_ne)
    with Para show ?thesis by simp
  qed simp
  have "count_sub section_marker section_marker + count_sub section_marker rest
        \<le> count_sub section_marker (section_marker @ rest)"
    by (rule count_sub_append) simp
  moreover have "count_sub section_marker (section_marker @ rest) \<le> count_sub section_marker (section_html (t, body))"
    unfolding h by (rule count_sub_append_right) simp
  ultimately show ?thesis using r count_sub_self [of section_marker] by linarith
qed

lemma document_markers:
  "sum_list (map (\<lambda>sec. count_sub section_marker (section_html sec)) secs)
     \<le> count_sub section_marker (document_html name contacts secs)"
proof -
  have "sum_list (map (\<lambda>sec. count_sub section_marker (section_html sec)) secs)
        \<le> count_sub section_marker (join_with (nl @ nl) (map section_html secs))"
    using count_sub_join_with [OF section_marker_ne, of "map section_html secs" "nl @ nl"]
    by (simp add: comp_def)
  also have "\<dots> \<le> count_sub section_marker (document_html name contacts secs)"
  proof -
    have "document_html name contacts secs =
        (doc_preamble name @ contact_html contacts @ nl @ ''            </div>'' @ nl @ nl)
        @ join_with (nl @ nl) (map section_html secs) @ doc_end"
      by (simp add: document_html_def)
    then show ?thesis by (metis count_sub_append3 section_marker_ne)
  qed
  finally show ?thesis .
qed

lemma section_list_markers:
  "8 + count_sub section_marker s
     \<le> sum_list (map (\<lambda>sec. count_sub section_marker (section_html sec))
                     (section_list s exps edus skills certs projs languages hobbies))"
proof -
  have one: "\<And>t body. 1 \<le> count_sub section_marker (section_html (t, body))"
    using section_html_markers by (meson le_add1 order_trans)
  have "1 + count_sub section_marker s
      \<le> count_sub section_marker (section_html (''Professional Summary'', Para s))"
    using section_html_markers [of "Para s"] by simp
  then show ?thesis
    using one [of "''Work Experience''" "Blocks exps"] one [of "''Education''" "Blocks edus"]
      one [of "''Skills''" "Para skills"] one [of "''Certifications''" "Para certs"]
      one [of "''Projects''" "Blocks projs"] one [of "''Languages''" "Para languages"]
      one [of "''Hobbies and Interests''" "Para hobbies"]
    unfolding section_list_def list.map sum_list_simps by linarith
qed

text \<open>
  C12: a rendered document holds at least one section marker
  \<^verbatim>\<open><div class="section">\<close> for each of its eight sections plus every one in the
  summary text: since field text is not escaped, a summary holding the marker opens
  sections beyond the fixed eight.
\<close>

theorem generate_resume_html_injected_sections:
  assumes "generate_resume_html (PDict data) = Inr html"
    and "dict_get data ''summary'' (PStr []) = PStr s"
  shows "8 + count_sub section_marker s \<le> count_sub section_marker html"
  using rendered_summary_layout [OF assms] section_list_markers document_markers
  by (metis order_trans)

theorem generate_resume_html_injected_sections_witness:
  "\<exists>html. generate_resume_html (PDict [(''summary'', PStr section_marker)]) = Inr html
     \<and> 9 \<le> count_sub section_marker html"
proof -
  obtain html where h: "generate_resume_html (PDict [(''summary'', PStr section_marker)]) = Inr html"
    using summary_only_html by blast
  have d: "dict_get [(''summary'', PStr section_marker)] ''summary'' (PStr []) = PStr section_marker"
    by (simp add: dict_get_def)
  have "1 \<le> count_sub section_marker section_marker" by (rule count_sub_self)
  with generate_resume_html_injected_sections [OF h d] h show ?thesis by auto
qed

end
