(* ===== verification/ResumeRecord.thy ===== *)
theory ResumeRecord
  imports ResumeLayout
begin

text \<open>
  The spec's data model (section 3): a resume record whose scalar fields are optional
  text, whose list fields are optional lists of text, and whose entry lists hold typed
  experience, education and project entries.  \<open>resume_dict\<close> encodes a record as the
  JSON object a caller passes to the renderer (an absent field is an absent key);
  \<open>render_resume\<close> is the typed rendering the spec describes, with the code's
  separators and fallbacks.  The refinement theorem: on every encoded record the renderer
  raises nothing and returns \<open>render_resume\<close>.
\<close>

record experience =
  job_title :: "string option"
  company :: "string option"
  exp_location :: "string option"
  start_date :: "string option"
  end_date :: "string option"
  achievements :: "string list option"

record education_entry =
  degree :: "string option"
  institution :: "string option"
  edu_location :: "string option"
  graduation_date :: "string option"
  honors :: "string option"

record project =
  title :: "string option"
  description :: "string option"
  technologies :: "string option"
  role :: "string option"

record resume =
  name :: "string option"
  phone :: "string option"
  email :: "string option"
  linkedin :: "string option"
  portfolio :: "string option"
  address :: "string option"
  summary :: "string option"
  experiences :: "experience list option"
  education :: "education_entry list option"
  skills :: "string list option"
  certifications :: "string list option"
  projects :: "project list option"
  languages :: "string list option"
  hobbies :: "string list option"

subsection \<open>Encoding as a JSON object\<close>

definition opt_field :: "string \<Rightarrow> ('a \<Rightarrow> pyval) \<Rightarrow> 'a option \<Rightarrow> pydict" where
  "opt_field k f v = (case v of None \<Rightarrow> [] | Some x \<Rightarrow> [(k, f x)])"

definition str_list :: "string list \<Rightarrow> pyval" where
  "str_list xs = PList (map PStr xs)"

definition experience_dict :: "experience \<Rightarrow> pydict" where
  "experience_dict e =
     opt_field ''job_title'' PStr (job_title e) @ opt_field ''company'' PStr (company e)
     @ opt_field ''location'' PStr (exp_location e) @ opt_field ''start_date'' PStr (start_date e)
     @ opt_field ''end_date'' PStr (end_date e) @ opt_field ''achievements'' str_list (achievements e)"

definition education_dict :: "education_entry \<Rightarrow> pydict" where
  "education_dict e =
     opt_field ''degree'' PStr (degree e) @ opt_field ''institution'' PStr (institution e)
     @ opt_field ''location'' PStr (edu_location e)
     @ opt_field ''graduation_date'' PStr (graduation_date e) @ opt_field ''honors'' PStr (honors e)"

definition project_dict :: "project \<Rightarrow> pydict" where
  "project_dict p =
     opt_field ''title'' PStr (title p) @ opt_field ''description'' PStr (description p)
     @ opt_field ''technologies'' PStr (technologies p) @ opt_field ''role'' PStr (role p)"

definition resume_dict :: "resume \<Rightarrow> pydict" where
  "resume_dict r =
     opt_field ''name'' PStr (name r) @ opt_field ''phone'' PStr (phone r)
     @ opt_field ''email'' PStr (email r) @ opt_field ''linkedin'' PStr (linkedin r)
     @ opt_field ''portfolio'' PStr (portfolio r) @ opt_field ''address'' PStr (address r)
     @ opt_field ''summary'' PStr (summary r)
     @ opt_field ''experiences'' (\<lambda>es. PList (map (\<lambda>e. PDict (experience_dict e)) es)) (experiences r)
     @ opt_field ''education'' (\<lambda>es. PList (map (\<lambda>e. PDict (education_dict e)) es)) (education r)
     @ opt_field ''skills'' str_list (skills r)
     @ opt_field ''certifications'' str_list (certifications r)
     @ opt_field ''projects'' (\<lambda>ps. PList (map (\<lambda>p. PDict (project_dict p)) ps)) (projects r)
     @ opt_field ''languages'' str_list (languages r) @ opt_field ''hobbies'' str_list (hobbies r)"

subsection \<open>The typed rendering\<close>

definition text_or :: "string \<Rightarrow> string option \<Rightarrow> string" where
  "text_or dflt v = (case v of None \<Rightarrow> dflt | Some s \<Rightarrow> s)"

definition na_join :: "string list option \<Rightarrow> string" where
  "na_join v = (case v of Some xs \<Rightarrow> if xs = [] then ''N/A'' else join_with '', '' xs | None \<Rightarrow> ''N/A'')"

definition experience_html :: "experience \<Rightarrow> string" where
  "experience_html e = text_lines
    [ [],
      ''                    <div class=\"experience\">'',
      ''                        <h3>'' @ join_with '' | ''
        [text_or [] (job_title e), text_or [] (company e), text_or [] (exp_location e),
         text_or [] (start_date e) @ '' - '' @ text_or [] (end_date e)] @ ''</h3>'',
      ''                        <ul>'',
      ''                            '' @ join_with '' ''
        (map (\<lambda>a. ''<li>'' @ a @ ''</li>'') (case achievements e of None \<Rightarrow> [] | Some xs \<Rightarrow> xs)),
      ''                        </ul>'',
      ''                    </div>'',
      ''                '' ]"

definition education_entry_html :: "education_entry \<Rightarrow> string" where
  "education_entry_html e = text_lines
    [ [],
      ''                    <div class=\"education\">'',
      ''                        <h3>'' @ text_or [] (degree e) @ ''</h3>'',
      ''                        <p>'' @ join_with '' | ''
        [text_or [] (institution e), text_or [] (edu_location e),
         ''Graduated: '' @ text_or [] (graduation_date e)] @ ''</p>'',
      ''                        <p>Honors/Awards: '' @ text_or ''N/A'' (honors e) @ ''</p>'',
      ''                    </div>'',
      ''                '' ]"

definition project_html :: "project \<Rightarrow> string" where
  "project_html p = text_lines
    [ [],
      ''                    <div class=\"project\">'',
      ''                        <h3>'' @ text_or [] (title p) @ ''</h3>'',
      ''                        <p><strong>Description:</strong> '' @ text_or [] (description p) @ ''</p>'',
      ''                        <p><strong>Technologies:</strong> '' @ text_or [] (technologies p) @ ''</p>'',
      ''                        <p><strong>Role:</strong> '' @ text_or [] (role p) @ ''</p>'',
      ''                    </div>'',
      ''                '' ]"

definition render_resume :: "resume \<Rightarrow> string" where
  "render_resume r =
     document_html (text_or [] (name r))
       [(''Phone'', text_or [] (phone r)), (''Email'', text_or [] (email r)),
        (''LinkedIn'', text_or ''N/A'' (linkedin r)), (''Portfolio'', text_or ''N/A'' (portfolio r)),
        (''Address'', text_or ''N/A'' (address r))]
       (section_list (text_or [] (summary r))
          (concat (map experience_html (case experiences r of None \<Rightarrow> [] | Some es \<Rightarrow> es)))
          (concat (map education_entry_html (case education r of None \<Rightarrow> [] | Some es \<Rightarrow> es)))
          (case skills r of None \<Rightarrow> [] | Some xs \<Rightarrow> join_with '', '' xs)
          (na_join (certifications r))
          (concat (map project_html (case projects r of None \<Rightarrow> [] | Some ps \<Rightarrow> ps)))
          (na_join (languages r)) (na_join (hobbies r)))"

subsection \<open>Lookups in an encoded record\<close>

lemma map_of_opt_field [simp]:
  "map_of (opt_field k f v @ rest) k' = (if k = k' \<and> v \<noteq> None then map_option f v else map_of rest k')"
  by (cases v) (simp_all add: opt_field_def)

lemma map_option_if_present [simp]: "(if v \<noteq> None then map_option f v else None) = map_option f v"
  by (cases v) simp_all

lemma map_of_opt_field_last [simp]:
  "map_of (opt_field k f v) k' = (if k = k' then map_option f v else None)"
  by (cases v) (simp_all add: opt_field_def)

lemma dict_items_map_PDict [simp]: "dict_items (map (\<lambda>x. PDict (f x)) xs) = map f xs"
  by (induction xs) simp_all

lemma get_str_opt:
  "map_of d k = map_option PStr v \<Longrightarrow> get_str d k dflt = text_or dflt v"
  by (cases v) (simp_all add: get_str_def dict_get_def text_or_def)

lemma skills_text_opt:
  "map_of d ''skills'' = map_option str_list v \<Longrightarrow>
   skills_text d = Inr (case v of None \<Rightarrow> [] | Some xs \<Rightarrow> join_with '', '' xs)"
  by (cases v) (simp_all add: skills_text_def dict_get_def str_list_def)

lemma joined_or_na_opt:
  "map_of d k = map_option str_list v \<Longrightarrow> joined_or_na d k = Inr (na_join v)"
  by (cases v) (auto simp: joined_or_na_def dict_get_def str_list_def na_join_def)

lemma field_dicts_opt:
  "map_of d k = map_option (\<lambda>es. PList (map (\<lambda>e. PDict (f e)) es)) v \<Longrightarrow>
   field_dicts d k = map f (case v of None \<Rightarrow> [] | Some es \<Rightarrow> es)"
  by (cases v) (simp_all add: field_dicts_def dict_get_def)

lemma exc_map_map_Inr:
  "(\<And>x. f (g x) = Inr (h x)) \<Longrightarrow> exc_map f (map g xs) = Inr (map h xs)"
  by (induction xs) simp_all

lemmas resume_lookup_simps = resume_dict_def experience_dict_def education_dict_def project_dict_def

lemma experience_block:
  "exp_block (experience_dict e) = Inr (experience_html e)"
proof -
  have g: "get_str (experience_dict e) ''job_title'' [] = text_or [] (job_title e)"
    "get_str (experience_dict e) ''company'' [] = text_or [] (company e)"
    "get_str (experience_dict e) ''location'' [] = text_or [] (exp_location e)"
    "get_str (experience_dict e) ''start_date'' [] = text_or [] (start_date e)"
    "get_str (experience_dict e) ''end_date'' [] = text_or [] (end_date e)"
    by (rule get_str_opt, simp add: resume_lookup_simps del: map_of_append)+
  have a: "dict_get (experience_dict e) ''achievements'' (PList []) =
      PList (map PStr (case achievements e of None \<Rightarrow> [] | Some xs \<Rightarrow> xs))"
    by (cases "achievements e") (simp_all add: experience_dict_def dict_get_def str_list_def del: map_of_append)
  show ?thesis
    by (simp add: exp_block_def achievements_html_def experience_html_def g a comp_def)
qed

lemma education_block: "edu_block (education_dict e) = education_entry_html e"
proof -
  have g: "get_str (education_dict e) ''degree'' [] = text_or [] (degree e)"
    "get_str (education_dict e) ''institution'' [] = text_or [] (institution e)"
    "get_str (education_dict e) ''location'' [] = text_or [] (edu_location e)"
    "get_str (education_dict e) ''graduation_date'' [] = text_or [] (graduation_date e)"
    "get_str (education_dict e) ''honors'' ''N/A'' = text_or ''N/A'' (honors e)"
    by (rule get_str_opt, simp add: resume_lookup_simps del: map_of_append)+
  show ?thesis by (simp add: edu_block_def education_entry_html_def g)
qed

lemma project_block: "proj_block (project_dict p) = project_html p"
proof -
  have g: "get_str (project_dict p) ''title'' [] = text_or [] (title p)"
    "get_str (project_dict p) ''description'' [] = text_or [] (description p)"
    "get_str (project_dict p) ''technologies'' [] = text_or [] (technologies p)"
    "get_str (project_dict p) ''role'' [] = text_or [] (role p)"
    by (rule get_str_opt, simp add: resume_lookup_simps del: map_of_append)+
  show ?thesis by (simp add: proj_block_def project_html_def g)
qed

lemma resume_sections_typed:
  "resume_sections (resume_dict r) =
     Inr (section_list (text_or [] (summary r))
          (concat (map experience_html (case experiences r of None \<Rightarrow> [] | Some es \<Rightarrow> es)))
          (concat (map education_entry_html (case education r of None \<Rightarrow> [] | Some es \<Rightarrow> es)))
          (case skills r of None \<Rightarrow> [] | Some xs \<Rightarrow> join_with '', '' xs)
          (na_join (certifications r))
          (concat (map project_html (case projects r of None \<Rightarrow> [] | Some ps \<Rightarrow> ps)))
          (na_join (languages r)) (na_join (hobbies r)))"
proof -
  have e: "field_dicts (resume_dict r) ''experiences'' =
      map experience_dict (case experiences r of None \<Rightarrow> [] | Some es \<Rightarrow> es)"
    by (rule field_dicts_opt, simp add: resume_dict_def del: map_of_append)
  have d: "field_dicts (resume_dict r) ''education'' =
      map education_dict (case education r of None \<Rightarrow> [] | Some es \<Rightarrow> es)"
    by (rule field_dicts_opt, simp add: resume_dict_def del: map_of_append)
  have p: "field_dicts (resume_dict r) ''projects'' =
      map project_dict (case projects r of None \<Rightarrow> [] | Some ps \<Rightarrow> ps)"
    by (rule field_dicts_opt, simp add: resume_dict_def del: map_of_append)
  have s: "skills_text (resume_dict r) = Inr (case skills r of None \<Rightarrow> [] | Some xs \<Rightarrow> join_with '', '' xs)"
    by (rule skills_text_opt, simp add: resume_dict_def del: map_of_append)
  have j: "joined_or_na (resume_dict r) ''certifications'' = Inr (na_join (certifications r))"
    "joined_or_na (resume_dict r) ''languages'' = Inr (na_join (languages r))"
    "joined_or_na (resume_dict r) ''hobbies'' = Inr (na_join (hobbies r))"
    by (rule joined_or_na_opt, simp add: resume_dict_def del: map_of_append)+
  have m: "get_str (resume_dict r) ''summary'' [] = text_or [] (summary r)"
    by (rule get_str_opt, simp add: resume_dict_def del: map_of_append)
  have x: "exc_map exp_block (map experience_dict es) = Inr (map experience_html es)" for es
    by (rule exc_map_map_Inr, rule experience_block)
  show ?thesis
    by (simp add: resume_sections_def e d p s j m x comp_def education_block project_block)
qed

lemma contact_fields_typed:
  "get_str (resume_dict r) ''name'' [] = text_or [] (name r)
   \<and> contact_fields (resume_dict r) =
     [(''Phone'', text_or [] (phone r)), (''Email'', text_or [] (email r)),
      (''LinkedIn'', text_or ''N/A'' (linkedin r)), (''Portfolio'', text_or ''N/A'' (portfolio r)),
      (''Address'', text_or ''N/A'' (address r))]"
proof -
  have g: "get_str (resume_dict r) ''name'' [] = text_or [] (name r)"
    "get_str (resume_dict r) ''phone'' [] = text_or [] (phone r)"
    "get_str (resume_dict r) ''email'' [] = text_or [] (email r)"
    "get_str (resume_dict r) ''linkedin'' ''N/A'' = text_or ''N/A'' (linkedin r)"
    "get_str (resume_dict r) ''portfolio'' ''N/A'' = text_or ''N/A'' (portfolio r)"
    "get_str (resume_dict r) ''address'' ''N/A'' = text_or ''N/A'' (address r)"
    by (rule get_str_opt, simp add: resume_dict_def del: map_of_append)+
  show ?thesis by (simp add: contact_fields_def g)
qed

subsection \<open>Refinement\<close>

text \<open>
  C11: on every well-typed resume record, encoded as its JSON object, the renderer raises
  nothing and returns the typed rendering: the eight sections of the record's fields, with
  empty text for absent scalar fields and skills, and N/A for absent certifications,
  languages, hobbies and contact fields other than phone and email.
\<close>

theorem render_resume_refines:
  "generate_resume_html (PDict (resume_dict r)) = Inr (render_resume r)"
  using contact_fields_typed [of r]
  by (simp add: resume_layout_eq resume_sections_typed render_resume_def)

end
