(* ===== verification/MarkupScan.thy ===== *)
theory MarkupScan
  imports PyRepr
begin

text \<open>
  Reading text as HTML markup.  \<open>tags\<close> scans text the way an HTML tokenizer finds
  tags: a \<open><\<close> opens a tag that runs to the next \<open>>\<close>, everything else is character
  data; \<open>tag_closed\<close> holds when every \<open><\<close> has its \<open>>\<close>, so that the tags of a
  concatenation are the tags of its parts.  \<open>tag_delta\<close> reads a tag as opening a
  \<open>div\<close> (+1), closing one (-1), or neither; \<open>div_net\<close> is the net nesting change of
  a tag sequence and \<open>div_low\<close> its lowest point, so a sequence is balanced
  (\<open>div_balanced\<close>) when it ends where it starts and never closes a \<open>div\<close> it did not
  open.  \<open>clean_val\<close> holds of a Python value no string of which contains \<open><\<close>; the
  lemmas show such values print no tags through \<open>str\<close>, \<open>repr\<close> and
  \<open>str.join\<close>, and that a template's tags are those of its lines.
\<close>

lemma dropWhile_shorter: "length (dropWhile P xs) - Suc 0 < Suc (length xs)"
  using length_dropWhile_le [of P xs] by linarith

function tags :: "string \<Rightarrow> string list" where
  "tags [] = []"
| "tags (c # cs) =
     (if c = CHR ''<'' then takeWhile (\<lambda>x. x \<noteq> CHR ''>'') cs # tags (drop 1 (dropWhile (\<lambda>x. x \<noteq> CHR ''>'') cs))
      else tags cs)"
  by pat_completeness auto
termination
  by (relation "measure length") (simp_all add: dropWhile_shorter)

function tag_closed :: "string \<Rightarrow> bool" where
  "tag_closed [] = True"
| "tag_closed (c # cs) =
     (if c = CHR ''<'' then CHR ''>'' \<in> set cs \<and> tag_closed (drop 1 (dropWhile (\<lambda>x. x \<noteq> CHR ''>'') cs))
      else tag_closed cs)"
  by pat_completeness auto
termination
  by (relation "measure length") (simp_all add: dropWhile_shorter)

definition tag_delta :: "string \<Rightarrow> int" where
  "tag_delta t = (if t = ''/div'' then -1 else if t = ''div'' \<or> prefix ''div '' t then 1 else 0)"

definition div_net :: "string list \<Rightarrow> int" where
  "div_net ts = sum_list (map tag_delta ts)"

fun div_low :: "string list \<Rightarrow> int" where
  "div_low [] = 0"
| "div_low (t # ts) = min 0 (tag_delta t + div_low ts)"

definition div_balanced :: "string list \<Rightarrow> bool" where
  "div_balanced ts \<longleftrightarrow> div_net ts = 0 \<and> 0 \<le> div_low ts"

fun clean_val :: "pyval \<Rightarrow> bool" where
  "clean_val (PStr s) = (CHR ''<'' \<notin> set s)"
| "clean_val (PList xs) = list_all clean_val xs"
| "clean_val (PDict d) = list_all (\<lambda>kv. CHR ''<'' \<notin> set (fst kv) \<and> clean_val (snd kv)) d"
| "clean_val _ = True"

subsection \<open>Scanning joined text\<close>

lemma tags_no_lt: "CHR ''<'' \<notin> set f \<Longrightarrow> tags (f @ r) = tags r"
  by (induction f) auto

lemma tag_closed_no_lt: "CHR ''<'' \<notin> set f \<Longrightarrow> tag_closed (f @ r) = tag_closed r"
  by (induction f) auto

lemma dropWhile_append_found:
  "x \<in> set xs \<Longrightarrow> \<not> P x \<Longrightarrow> Suc 0 - length (dropWhile P xs) = 0"
  by (induction xs) auto

lemma tags_append: "tag_closed a \<Longrightarrow> tags (a @ b) = tags a @ tags b"
proof (induction a rule: tags.induct)
  case (2 c cs)
  then show ?case
    by (auto simp: takeWhile_append1 dropWhile_append_found split: if_splits)
qed simp

lemma tag_closed_append: "tag_closed a \<Longrightarrow> tag_closed (a @ b) = tag_closed b"
proof (induction a rule: tag_closed.induct)
  case (2 c cs)
  then show ?case
    by (auto simp: dropWhile_append_found split: if_splits)
qed simp

subsection \<open>Nesting profiles\<close>

lemma div_net_append [simp]: "div_net (xs @ ys) = div_net xs + div_net ys"
  by (simp add: div_net_def)

lemma div_net_Cons [simp]: "div_net (t # ts) = tag_delta t + div_net ts"
  by (simp add: div_net_def)

lemma div_net_Nil [simp]: "div_net [] = 0"
  by (simp add: div_net_def)

lemma div_low_le_0: "div_low ts \<le> 0"
  by (cases ts) auto

lemma div_low_append: "div_low (xs @ ys) = min (div_low xs) (div_net xs + div_low ys)"
  by (induction xs) (auto simp: div_low_le_0 min_absorb2)

lemma div_low_le_net: "div_low ts \<le> div_net ts"
  by (induction ts) auto

lemma div_balanced_append:
  "div_balanced xs \<Longrightarrow> div_balanced ys \<Longrightarrow> div_balanced (xs @ ys)"
  by (simp add: div_balanced_def div_low_append)

lemma div_balanced_Nil [simp]: "div_balanced []"
  by (simp add: div_balanced_def)

lemma div_balanced_concat: "\<forall>ts \<in> set tss. div_balanced ts \<Longrightarrow> div_balanced (concat tss)"
  by (induction tss) (simp_all add: div_balanced_append)

lemma div_profile_balanced_right:
  "div_balanced ys \<Longrightarrow> div_net (xs @ ys) = div_net xs \<and> div_low (xs @ ys) = div_low xs"
  using div_low_le_net [of xs] by (auto simp: div_balanced_def div_low_append)

subsection \<open>Clean values print no tags\<close>

lemma tags_clean: "CHR ''<'' \<notin> set f \<Longrightarrow> tags f = []"
  using tags_no_lt [of f "[]"] by simp

lemma tag_closed_clean: "CHR ''<'' \<notin> set f \<Longrightarrow> tag_closed f"
  using tag_closed_no_lt [of f "[]"] by simp

lemma hex_digit_not_lt: "n < 16 \<Longrightarrow> hex_digit n \<noteq> CHR ''<''"
proof -
  assume "n < 16"
  then have "of_char (hex_digit n) \<noteq> (60::nat)"
    by (simp add: hex_digit_def of_char_of)
  then show ?thesis by auto
qed

lemma repr_char_not_lt: "CHR ''<'' \<in> set (repr_char q c) \<Longrightarrow> c = CHR ''<''"
  using hex_digit_not_lt [of "of_char c div 16"] hex_digit_not_lt [of "of_char c mod 16"]
  by (auto simp: repr_char_def Let_def less_mult_imp_div_less split: if_splits)

lemma str_repr_clean: "CHR ''<'' \<notin> set s \<Longrightarrow> CHR ''<'' \<notin> set (str_repr s)"
  using repr_quote_cases [of s] repr_char_not_lt by (auto simp: str_repr_def Let_def)

lemma digit_char_not_lt: "d < 10 \<Longrightarrow> digit_char d \<noteq> CHR ''<''"
proof -
  assume "d < 10"
  then have "of_char (digit_char d) \<noteq> (60::nat)"
    by (simp add: digit_char_def of_char_of)
  then show ?thesis by auto
qed

lemma nat_str_clean: "CHR ''<'' \<notin> set (nat_str n)"
proof (induction n rule: nat_str.induct)
  case (1 n)
  then show ?case using digit_char_not_lt [of n] digit_char_not_lt [of "n mod 10"]
    by (subst nat_str.simps) auto
qed

lemma int_str_clean: "CHR ''<'' \<notin> set (int_str i)"
  using nat_str_clean by (simp add: int_str_def)

lemma join_with_clean:
  "CHR ''<'' \<notin> set sep \<Longrightarrow> \<forall>x \<in> set xs. CHR ''<'' \<notin> set x \<Longrightarrow> CHR ''<'' \<notin> set (join_with sep xs)"
  using set_join_with_subset [of sep xs] by blast

lemma py_repr_clean: "clean_val v \<Longrightarrow> CHR ''<'' \<notin> set (py_repr v)"
proof (induction v rule: py_repr.induct)
  case (5 xs)
  then show ?case
    using set_join_with_subset [of _ "map py_repr xs"] by (fastforce simp: list_all_iff)
next
  case (6 d)
  have "CHR ''<'' \<notin> set (join_with '', '' (map (\<lambda>(k, v). str_repr k @ '': '' @ py_repr v) d))"
  proof (rule join_with_clean)
    show "\<forall>x \<in> set (map (\<lambda>(k, v). str_repr k @ '': '' @ py_repr v) d). CHR ''<'' \<notin> set x"
      using 6 by (auto simp: list_all_iff str_repr_clean)
  qed simp
  then show ?case by simp
qed (simp_all add: str_repr_clean int_str_clean)

lemma py_str_clean: "clean_val v \<Longrightarrow> CHR ''<'' \<notin> set (py_str v)"
  by (cases v) (simp_all add: py_repr_clean del: py_repr.simps)

lemma dict_get_clean:
  "clean_val (PDict d) \<Longrightarrow> clean_val dflt \<Longrightarrow> clean_val (dict_get d k dflt)"
  by (auto simp: dict_get_def list_all_iff dest!: map_of_SomeD split: option.split)

lemma py_iter_clean: "clean_val v \<Longrightarrow> py_iter v = Inr xs \<Longrightarrow> list_all clean_val xs"
  by (cases v) (force simp: list_all_iff)+

subsection \<open>Tags of lists and templates\<close>

definition li_tags :: "string list \<Rightarrow> bool" where
  "li_tags ts \<longleftrightarrow> set ts \<subseteq> {''li'', ''/li''}"

lemma li_tags_profile: "li_tags ts \<Longrightarrow> div_net ts = 0 \<and> div_low ts = 0"
  by (induction ts) (auto simp: li_tags_def tag_delta_def)

lemmas tag_scan_simps = tags_no_lt tag_closed_no_lt tags_clean tag_closed_clean

lemma li_items_exact:
  "\<forall>a \<in> set xs. CHR ''<'' \<notin> set (py_str a) \<Longrightarrow>
   tag_closed (join_with '' '' (map (\<lambda>a. ''<li>'' @ py_str a @ ''</li>'') xs))
   \<and> tags (join_with '' '' (map (\<lambda>a. ''<li>'' @ py_str a @ ''</li>'') xs))
     = concat (replicate (length xs) [''li'', ''/li''])"
proof (induction xs)
  case (Cons a xs)
  then show ?case
    by (cases xs) (simp_all add: tag_scan_simps tags_append tag_closed_append)
qed simp

lemma li_tags_replicate: "li_tags (concat (replicate n [''li'', ''/li'']))"
  by (induction n) (simp_all add: li_tags_def)

lemma count_li_replicate: "count_list (concat (replicate n [''li'', ''/li''])) ''li'' = n"
  by (induction n) simp_all

lemma li_items_tags:
  "\<forall>a \<in> set xs. CHR ''<'' \<notin> set (py_str a) \<Longrightarrow>
   tag_closed (join_with '' '' (map (\<lambda>a. ''<li>'' @ py_str a @ ''</li>'') xs))
   \<and> li_tags (tags (join_with '' '' (map (\<lambda>a. ''<li>'' @ py_str a @ ''</li>'') xs)))"
  using li_items_exact [of xs] li_tags_replicate [of "length xs"] by simp

lemma text_lines_scan:
  "\<forall>l \<in> set ls. tag_closed l \<Longrightarrow>
   tag_closed (text_lines ls) \<and> tags (text_lines ls) = concat (map tags ls)"
proof (induction ls rule: induct_list012)
  case (3 x y zs)
  then show ?case by (simp add: text_lines_Cons tags_append tag_closed_append nl_def)
qed (simp_all add: text_lines_def)

lemma text_lines_tags: "\<forall>l \<in> set ls. tag_closed l \<Longrightarrow> tags (text_lines ls) = concat (map tags ls)"
  by (simp add: text_lines_scan)

lemma text_lines_closed: "\<forall>l \<in> set ls. tag_closed l \<Longrightarrow> tag_closed (text_lines ls)"
  by (simp add: text_lines_scan)

lemmas template_scan_simps = text_lines_tags text_lines_closed tag_scan_simps tag_delta_def

lemma collect_strs_clean:
  "list_all clean_val vs \<Longrightarrow> collect_strs i vs = Inr ss \<Longrightarrow> \<forall>s \<in> set ss. CHR ''<'' \<notin> set s"
proof (induction vs arbitrary: i ss)
  case (Cons v vs)
  then show ?case by (cases v) (auto simp: exc_bind_eq_Inr)
qed simp

lemma str_join_clean:
  assumes "clean_val v" and "str_join sep v = Inr r" and "CHR ''<'' \<notin> set sep"
  shows "CHR ''<'' \<notin> set r"
proof -
  from assms(2) obtain items ss where it: "py_iter v = Inr items" and c: "collect_strs 0 items = Inr ss"
    and r: "r = join_with sep ss"
    by (auto simp: str_join_def exc_bind_eq_Inr split: sum.splits)
  have "\<forall>s \<in> set ss. CHR ''<'' \<notin> set s"
    using collect_strs_clean [OF py_iter_clean [OF assms(1) it] c] .
  then show ?thesis unfolding r using assms(3) by (simp add: join_with_clean)
qed

lemma dict_get_list_clean: "clean_val (PDict data) \<Longrightarrow> clean_val (dict_get data k (PList []))"
  by (rule dict_get_clean) simp_all

lemma dict_items_clean: "list_all clean_val xs \<Longrightarrow> \<forall>e \<in> set (dict_items xs). clean_val (PDict e)"
  by (induction xs rule: dict_items.induct) auto

lemma join_tags:
  "CHR ''<'' \<notin> set sep \<Longrightarrow> \<forall>x \<in> set xs. tag_closed x \<Longrightarrow>
   tag_closed (join_with sep xs) \<and> tags (join_with sep xs) = concat (map tags xs)"
  by (induction sep xs rule: join_with.induct) (simp_all add: tags_append tag_closed_append tag_scan_simps)

lemma concat_tags:
  "\<forall>x \<in> set xs. tag_closed x \<Longrightarrow> tag_closed (concat xs) \<and> tags (concat xs) = concat (map tags xs)"
  by (induction xs) (simp_all add: tags_append tag_closed_append)

end
