(* ===== verification/ResumeTags.thy ===== *)
theory ResumeTags
  imports ResumeLayout MarkupScan
begin

text \<open>
  The markup the renderer emits, read with the scanner of \<open>MarkupScan\<close>.  For a record
  no string of which contains \<open><\<close> (\<open>clean_val\<close>), every block template has a fixed
  tag sequence (an experience block adds one \<open>li\<close> pair per achievement), so the tags of
  the whole document follow the layout of \<open>ResumeLayout\<close>.  The theorems: the three
  loops keep the \<open>div\<close> nesting of the accumulated \<^verbatim>\<open>html\<close>; the whole document is
  balanced in its \<open>div\<close>s; it holds one experience, education and project block per dict
  entry of the corresponding list, and one \<open>li\<close> item per iterated achievement.
\<close>

definition experience_tag :: string where
  "experience_tag = ''div class=\"experience\"''"

definition education_tag :: string where
  "education_tag = ''div class=\"education\"''"

definition project_tag :: string where
  "project_tag = ''div class=\"project\"''"

subsection \<open>Field text of a clean record\<close>

lemma get_str_clean:
  "clean_val (PDict d) \<Longrightarrow> CHR ''<'' \<notin> set dflt \<Longrightarrow> CHR ''<'' \<notin> set (get_str d k dflt)"
  by (simp add: get_str_def py_str_clean dict_get_clean)

lemma skills_text_clean:
  assumes "clean_val (PDict data)" and "skills_text data = Inr r"
  shows "CHR ''<'' \<notin> set r"
proof (cases "is_list (dict_get data ''skills'' PNone)")
  case True
  with assms(2) have "str_join '', '' (dict_get data ''skills'' (PList [])) = Inr r"
    by (simp add: skills_text_def)
  then show ?thesis by (rule str_join_clean [OF dict_get_list_clean [OF assms(1)]]) simp
next
  case False
  with assms(2) show ?thesis by (simp add: skills_text_def)
qed

lemma joined_or_na_clean:
  assumes "clean_val (PDict data)" and "joined_or_na data k = Inr r"
  shows "CHR ''<'' \<notin> set r"
proof (cases "py_truthy (dict_get data k PNone) \<and> is_list (dict_get data k PNone)")
  case True
  with assms(2) have "str_join '', '' (dict_get data k (PList [])) = Inr r"
    by (simp add: joined_or_na_def)
  then show ?thesis by (rule str_join_clean [OF dict_get_list_clean [OF assms(1)]]) simp
next
  case False
  with assms(2) have "r = ''N/A''" by (simp add: joined_or_na_def)
  then show ?thesis by simp
qed

lemma field_dicts_clean:
  assumes "clean_val (PDict data)"
  shows "\<forall>e \<in> set (field_dicts data k). clean_val (PDict e)"
  using dict_get_list_clean [OF assms, of k]
  by (cases "dict_get data k (PList [])") (simp_all add: field_dicts_def dict_items_clean del: clean_val.simps(3))

subsection \<open>Tags of the blocks\<close>

lemma achievements_html_tags:
  assumes "clean_val (PDict e)" and "achievements_html e = Inr achs"
  shows "tag_closed achs \<and> li_tags (tags achs)"
proof -
  from assms(2) obtain items where it: "py_iter (dict_get e ''achievements'' (PList [])) = Inr items"
    and achs: "achs = join_with '' '' (map (\<lambda>a. ''<li>'' @ py_str a @ ''</li>'') items)"
    by (auto simp: achievements_html_def exc_bind_eq_Inr)
  have "list_all clean_val items"
    using py_iter_clean [OF dict_get_clean [OF assms(1)] it] by simp
  then have "\<forall>a \<in> set items. CHR ''<'' \<notin> set (py_str a)"
    by (auto simp: list_all_iff py_str_clean)
  then show ?thesis unfolding achs by (rule li_items_tags)
qed

lemma achievements_html_li_count:
  assumes "clean_val (PDict e)" and "achievements_html e = Inr achs"
  shows "count_list (tags achs) ''li'' = length (projr (py_iter (dict_get e ''achievements'' (PList []))))"
proof -
  from assms(2) obtain items where it: "py_iter (dict_get e ''achievements'' (PList [])) = Inr items"
    and achs: "achs = join_with '' '' (map (\<lambda>a. ''<li>'' @ py_str a @ ''</li>'') items)"
    by (auto simp: achievements_html_def exc_bind_eq_Inr)
  have "list_all clean_val items"
    using py_iter_clean [OF dict_get_clean [OF assms(1)] it] by simp
  then have "\<forall>a \<in> set items. CHR ''<'' \<notin> set (py_str a)"
    by (auto simp: list_all_iff py_str_clean)
  from li_items_exact [OF this] show ?thesis
    unfolding achs it by (simp add: count_li_replicate)
qed

lemma exp_block_achs:
  assumes clean: "clean_val (PDict e)" and blk: "exp_block e = Inr b"
  shows "\<exists>achs. achievements_html e = Inr achs \<and> tag_closed b
           \<and> tags b = [experience_tag, ''h3'', ''/h3'', ''ul''] @ tags achs @ [''/ul'', ''/div'']"
proof -
  from blk obtain achs where a: "achievements_html e = Inr achs"
    and b: "b = text_lines
      [ [],
        ''                    <div class=\"experience\">'',
        ''                        <h3>'' @ get_str e ''job_title'' [] @ '' | ''
          @ get_str e ''company'' [] @ '' | '' @ get_str e ''location'' [] @ '' | ''
          @ get_str e ''start_date'' [] @ '' - '' @ get_str e ''end_date'' [] @ ''</h3>'',
        ''                        <ul>'',
        ''                            '' @ achs,
        ''                        </ul>'',
        ''                    </div>'',
        ''                '' ]"
    by (auto simp: exp_block_def exc_bind_eq_Inr)
  from achievements_html_tags [OF clean a] have ca: "tag_closed achs" by simp
  have g: "\<And>k. CHR ''<'' \<notin> set (get_str e k [])" using clean by (simp add: get_str_clean)
  have "tag_closed b \<and> tags b = [experience_tag, ''h3'', ''/h3'', ''ul''] @ tags achs @ [''/ul'', ''/div'']"
    unfolding b text_lines_def using ca g
    by (simp add: tag_scan_simps tags_append tag_closed_append nl_def experience_tag_def)
  with a show ?thesis by blast
qed

lemma exp_block_tags:
  assumes clean: "clean_val (PDict e)" and blk: "exp_block e = Inr b"
  shows "tag_closed b \<and> (\<exists>ts. li_tags ts
           \<and> tags b = [experience_tag, ''h3'', ''/h3'', ''ul''] @ ts @ [''/ul'', ''/div''])"
  using exp_block_achs [OF assms] achievements_html_tags [OF clean] by blast

lemma exp_blocks_li_count:
  "list_all2 (\<lambda>e b. exp_block e = Inr b) es bs \<Longrightarrow> \<forall>e \<in> set es. clean_val (PDict e) \<Longrightarrow>
   count_list (concat (map tags bs)) ''li''
   = (\<Sum>e \<leftarrow> es. length (projr (py_iter (dict_get e ''achievements'' (PList [])))))"
proof (induction rule: list_all2_induct)
  case (Cons e es b bs)
  then have c: "clean_val (PDict e)" and "exp_block e = Inr b" by simp_all
  from exp_block_achs [OF this] obtain achs where a: "achievements_html e = Inr achs"
    and t: "tags b = [experience_tag, ''h3'', ''/h3'', ''ul''] @ tags achs @ [''/ul'', ''/div'']" by blast
  with Cons achievements_html_li_count [OF c a] show ?case
    by (simp add: experience_tag_def)
qed simp

lemma exp_block_balanced:
  assumes "clean_val (PDict e)" and "exp_block e = Inr b"
  shows "tag_closed b \<and> div_balanced (tags b)"
proof -
  from exp_block_tags [OF assms] obtain ts where c: "tag_closed b" and l: "li_tags ts"
    and t: "tags b = [experience_tag, ''h3'', ''/h3'', ''ul''] @ ts @ [''/ul'', ''/div'']"
    by blast
  show ?thesis
    using c li_tags_profile [OF l] unfolding t
    by (simp add: div_balanced_def div_low_append tag_delta_def experience_tag_def)
qed

lemma edu_block_tags:
  assumes "clean_val (PDict e)"
  shows "tag_closed (edu_block e) \<and> tags (edu_block e) =
           [education_tag, ''h3'', ''/h3'', ''p'', ''/p'', ''p'', ''/p'', ''/div'']"
proof -
  have g: "\<And>k d. CHR ''<'' \<notin> set d \<Longrightarrow> CHR ''<'' \<notin> set (get_str e k d)"
    using assms by (simp add: get_str_clean)
  show ?thesis
    using g [of "[]"] g [of "''N/A''"]
    by (simp add: edu_block_def text_lines_def nl_def tag_scan_simps education_tag_def)
qed

lemma proj_block_tags:
  assumes "clean_val (PDict p)"
  shows "tag_closed (proj_block p) \<and> tags (proj_block p) =
           [project_tag, ''h3'', ''/h3'', ''p'', ''strong'', ''/strong'', ''/p'',
            ''p'', ''strong'', ''/strong'', ''/p'', ''p'', ''strong'', ''/strong'', ''/p'', ''/div'']"
proof -
  have g: "\<And>k. CHR ''<'' \<notin> set (get_str p k [])"
    using assms by (simp add: get_str_clean)
  show ?thesis
    using g by (simp add: proj_block_def text_lines_def nl_def tag_scan_simps project_tag_def)
qed

subsection \<open>Tags of the sections and the document frame\<close>

lemma section_para_tags:
  "CHR ''<'' \<notin> set t \<Longrightarrow> CHR ''<'' \<notin> set p \<Longrightarrow>
   tag_closed (section_html (t, Para p))
   \<and> tags (section_html (t, Para p)) = [''div class=\"section\"'', ''h2'', ''/h2'', ''p'', ''/p'', ''/div'']"
  by (simp add: section_html_def nl_def tag_scan_simps)

lemma section_blocks_tags:
  "CHR ''<'' \<notin> set t \<Longrightarrow> tag_closed b \<Longrightarrow>
   tag_closed (section_html (t, Blocks b))
   \<and> tags (section_html (t, Blocks b)) = [''div class=\"section\"'', ''h2'', ''/h2''] @ tags b @ [''/div'']"
  by (simp add: section_html_def nl_def tag_scan_simps tags_append tag_closed_append)

lemma doc_preamble_tags:
  assumes "CHR ''<'' \<notin> set name"
  shows "tag_closed (doc_preamble name) \<and> tags (doc_preamble name) =
    [''!DOCTYPE html'', ''html lang=\"en\"'', ''head'', ''meta charset=\"UTF-8\"'',
     ''meta name=\"viewport\" content=\"width=device-width, initial-scale=1.0\"'',
     ''title'', ''/title'', ''style'', ''/style'', ''/head'', ''body'', ''div class=\"container\"'',
     ''h1'', ''/h1'', ''div class=\"contact-info\"'']"
  using assms unfolding doc_preamble_def by (simp add: template_scan_simps)

lemma contact_html_tags:
  assumes "\<forall>(l, v) \<in> set cs. CHR ''<'' \<notin> set l \<and> CHR ''<'' \<notin> set v"
  shows "tag_closed (contact_html cs) \<and> tags (contact_html cs) = concat (map (\<lambda>_. [''span'', ''/span'']) cs)"
proof -
  define f where "f = (\<lambda>(label, v). ''<span>'' @ label @ '': '' @ v @ ''</span>'')"
  define sep where "sep = '' | '' @ nl @ ''                ''"
  have fx: "\<forall>x \<in> set cs. tag_closed (f x) \<and> tags (f x) = [''span'', ''/span'']"
    using assms by (auto simp: f_def tag_scan_simps)
  have s: "CHR ''<'' \<notin> set sep" by (simp add: sep_def nl_def)
  have m: "map (\<lambda>x. tags (f x)) cs = map (\<lambda>_. [''span'', ''/span'']) cs"
    using fx by (simp add: map_eq_conv)
  have j: "tag_closed (join_with sep (map f cs))
      \<and> tags (join_with sep (map f cs)) = concat (map (\<lambda>_. [''span'', ''/span'']) cs)"
    using join_tags [OF s, of "map f cs"] fx m by (simp add: comp_def)
  have c: "contact_html cs = ''                '' @ join_with sep (map f cs)"
    by (simp add: contact_html_def f_def sep_def)
  show ?thesis unfolding c using j by (simp add: tag_scan_simps)
qed

lemma document_html_tags:
  assumes "CHR ''<'' \<notin> set name"
    and "\<forall>(l, v) \<in> set cs. CHR ''<'' \<notin> set l \<and> CHR ''<'' \<notin> set v"
    and "\<forall>sec \<in> set secs. tag_closed (section_html sec)"
  shows "tag_closed (document_html name cs secs) \<and> tags (document_html name cs secs) =
           tags (doc_preamble name) @ concat (map (\<lambda>_. [''span'', ''/span'']) cs) @ [''/div'']
           @ concat (map (\<lambda>sec. tags (section_html sec)) secs) @ [''/div'', ''/body'', ''/html'']"
proof -
  define J where "J = join_with (nl @ nl) (map section_html secs)"
  have P: "tag_closed (doc_preamble name)" using doc_preamble_tags [OF assms(1)] by simp
  have C: "tag_closed (contact_html cs)" "tags (contact_html cs) = concat (map (\<lambda>_. [''span'', ''/span'']) cs)"
    using contact_html_tags [OF assms(2)] by simp_all
  have J: "tag_closed J" "tags J = concat (map (\<lambda>sec. tags (section_html sec)) secs)"
    using join_tags [of "nl @ nl" "map section_html secs"] assms(3) by (simp_all add: J_def nl_def comp_def)
  have d: "document_html name cs secs =
      doc_preamble name @ contact_html cs @ (nl @ ''            </div>'' @ nl @ nl) @ J @ doc_end"
    by (simp add: document_html_def J_def)
  have M: "tag_closed (nl @ ''            </div>'' @ nl @ nl)" "tags (nl @ ''            </div>'' @ nl @ nl) = [''/div'']"
    by (simp_all add: nl_def)
  have E: "tag_closed doc_end" "tags doc_end = [''/div'', ''/body'', ''/html'']"
    by (simp_all add: doc_end_def nl_def)
  show ?thesis
    unfolding d using P C J M E by (simp only: tags_append tag_closed_append simp_thms)
qed

subsection \<open>The tags of a rendered record\<close>

definition para_section_tags :: "string list" where
  "para_section_tags = [''div class=\"section\"'', ''h2'', ''/h2'', ''p'', ''/p'', ''/div'']"

definition blocks_section_tags :: "string list \<Rightarrow> string list" where
  "blocks_section_tags ts = [''div class=\"section\"'', ''h2'', ''/h2''] @ ts @ [''/div'']"

lemma clean_render_tags:
  assumes clean: "clean_val (PDict data)" and ok: "generate_resume_html (PDict data) = Inr html"
  shows "\<exists>bs. list_all2 (\<lambda>e b. exp_block e = Inr b) (field_dicts data ''experiences'') bs
     \<and> tag_closed html
     \<and> tags html = tags (doc_preamble (get_str data ''name'' [])) @ concat (replicate 5 [''span'', ''/span''])
         @ [''/div''] @ para_section_tags @ blocks_section_tags (concat (map tags bs))
         @ blocks_section_tags (concat (map (\<lambda>e. tags (edu_block e)) (field_dicts data ''education'')))
         @ para_section_tags @ para_section_tags
         @ blocks_section_tags (concat (map (\<lambda>p. tags (proj_block p)) (field_dicts data ''projects'')))
         @ para_section_tags @ para_section_tags @ [''/div'', ''/body'', ''/html'']"
proof -
  from ok obtain secs where secs: "resume_sections data = Inr secs"
    and html: "html = document_html (get_str data ''name'' []) (contact_fields data) secs"
    by (auto simp: resume_layout_eq exc_bind_eq_Inr)
  from secs obtain bs skills certs languages hobbies where
    e: "exc_map exp_block (field_dicts data ''experiences'') = Inr bs"
    and s: "skills_text data = Inr skills" and c: "joined_or_na data ''certifications'' = Inr certs"
    and l: "joined_or_na data ''languages'' = Inr languages"
    and h: "joined_or_na data ''hobbies'' = Inr hobbies"
    and sl: "secs = section_list (get_str data ''summary'' []) (concat bs)
              (concat (map edu_block (field_dicts data ''education''))) skills certs
              (concat (map proj_block (field_dicts data ''projects''))) languages hobbies"
    by (auto simp: resume_sections_def exc_bind_eq_Inr)
  have a2: "list_all2 (\<lambda>e b. exp_block e = Inr b) (field_dicts data ''experiences'') bs"
    using e by (simp add: exc_map_eq_Inr)
  have g: "\<And>k d. CHR ''<'' \<notin> set d \<Longrightarrow> CHR ''<'' \<notin> set (get_str data k d)"
    using clean by (simp add: get_str_clean del: clean_val.simps(3))
  have bc: "\<forall>b \<in> set bs. tag_closed b"
    using a2 field_dicts_clean [OF clean, of "''experiences''"]
    by (induction rule: list_all2_induct) (auto dest: exp_block_balanced simp del: clean_val.simps(3))
  have ec: "\<forall>b \<in> set (map edu_block (field_dicts data ''education'')). tag_closed b"
    using field_dicts_clean [OF clean, of "''education''"] edu_block_tags by (auto simp del: clean_val.simps(3))
  have pc: "\<forall>b \<in> set (map proj_block (field_dicts data ''projects'')). tag_closed b"
    using field_dicts_clean [OF clean, of "''projects''"] proj_block_tags by (auto simp del: clean_val.simps(3))
  note bt = concat_tags [OF bc] and et = concat_tags [OF ec] and pt = concat_tags [OF pc]
  have cl: "CHR ''<'' \<notin> set skills" "CHR ''<'' \<notin> set certs" "CHR ''<'' \<notin> set languages"
      "CHR ''<'' \<notin> set hobbies"
    using skills_text_clean [OF clean s] joined_or_na_clean [OF clean c] joined_or_na_clean [OF clean l]
      joined_or_na_clean [OF clean h] by simp_all
  have sc: "\<forall>sec \<in> set secs. tag_closed (section_html sec)"
    unfolding sl section_list_def
    using g [of "[]" "''summary''"] cl bt et pt by (simp add: section_para_tags section_blocks_tags)
  have st: "map (\<lambda>sec. tags (section_html sec)) secs =
      [para_section_tags, blocks_section_tags (concat (map tags bs)),
       blocks_section_tags (concat (map (\<lambda>e. tags (edu_block e)) (field_dicts data ''education''))),
       para_section_tags, para_section_tags,
       blocks_section_tags (concat (map (\<lambda>p. tags (proj_block p)) (field_dicts data ''projects''))),
       para_section_tags, para_section_tags]"
    unfolding sl section_list_def
    using g [of "[]" "''summary''"] cl bt et pt
    by (simp add: section_para_tags section_blocks_tags para_section_tags_def blocks_section_tags_def comp_def)
  have ct: "\<forall>(lbl, v) \<in> set (contact_fields data). CHR ''<'' \<notin> set lbl \<and> CHR ''<'' \<notin> set v"
    using g [of "[]"] g [of "''N/A''"] by (simp add: contact_fields_def)
  have "tag_closed html \<and> tags html =
      tags (doc_preamble (get_str data ''name'' [])) @ concat (map (\<lambda>_. [''span'', ''/span'']) (contact_fields data))
      @ [''/div''] @ concat (map (\<lambda>sec. tags (section_html sec)) secs) @ [''/div'', ''/body'', ''/html'']"
    unfolding html by (rule document_html_tags [OF g ct sc]) simp
  then show ?thesis
    using a2 unfolding st by (auto simp: contact_fields_def numeral_eq_Suc)
qed

lemma blocks_section_balanced: "div_balanced ts \<Longrightarrow> div_balanced (blocks_section_tags ts)"
  by (simp add: div_balanced_def blocks_section_tags_def div_low_append tag_delta_def)

lemma para_section_balanced: "div_balanced para_section_tags"
  by (simp add: div_balanced_def para_section_tags_def tag_delta_def)

lemma exp_blocks_balanced:
  "list_all2 (\<lambda>e b. exp_block e = Inr b) es bs \<Longrightarrow> \<forall>e \<in> set es. clean_val (PDict e) \<Longrightarrow>
   div_balanced (concat (map tags bs))"
  by (induction rule: list_all2_induct)
    (auto dest: exp_block_balanced intro: div_balanced_append simp del: clean_val.simps(3))

lemma div_balanced_repeat: "div_balanced ts \<Longrightarrow> div_balanced (concat (map (\<lambda>_. ts) es))"
  by (rule div_balanced_concat) auto

lemma edu_blocks_tags:
  "\<forall>e \<in> set es. clean_val (PDict e) \<Longrightarrow>
   concat (map (\<lambda>e. tags (edu_block e)) es)
     = concat (map (\<lambda>_. [education_tag, ''h3'', ''/h3'', ''p'', ''/p'', ''p'', ''/p'', ''/div'']) es)"
  using edu_block_tags by (intro arg_cong [where f = concat]) (simp del: clean_val.simps(3))

lemma proj_blocks_tags:
  "\<forall>p \<in> set ps. clean_val (PDict p) \<Longrightarrow>
   concat (map (\<lambda>p. tags (proj_block p)) ps)
     = concat (map (\<lambda>_. [project_tag, ''h3'', ''/h3'', ''p'', ''strong'', ''/strong'', ''/p'',
            ''p'', ''strong'', ''/strong'', ''/p'', ''p'', ''strong'', ''/strong'', ''/p'', ''/div'']) ps)"
  using proj_block_tags by (intro arg_cong [where f = concat]) (simp del: clean_val.simps(3))

lemma html_append_block:
  assumes "tag_closed html" and "tag_closed b" and "div_balanced (tags b)"
  shows "tag_closed (html @ b) \<and> div_net (tags (html @ b)) = div_net (tags html)
         \<and> div_low (tags (html @ b)) = div_low (tags html)"
  using assms div_profile_balanced_right [of "tags b" "tags html"]
  by (simp add: tags_append tag_closed_append)

lemma edu_proj_block_balanced:
  assumes "clean_val (PDict e)"
  shows "tag_closed (edu_block e) \<and> div_balanced (tags (edu_block e))
       \<and> tag_closed (proj_block e) \<and> div_balanced (tags (proj_block e))"
  using edu_block_tags [OF assms] proj_block_tags [OF assms]
  by (simp add: div_balanced_def tag_delta_def education_tag_def project_tag_def)

lemma count_repeat: "count_list (concat (map (\<lambda>_. ts) es)) x = length es * count_list ts x"
  by (induction es) simp_all

lemma exp_blocks_count:
  "list_all2 (\<lambda>e b. exp_block e = Inr b) es bs \<Longrightarrow> \<forall>e \<in> set es. clean_val (PDict e) \<Longrightarrow>
   count_list (concat (map tags bs)) experience_tag = length bs
   \<and> count_list (concat (map tags bs)) education_tag = 0 \<and> count_list (concat (map tags bs)) project_tag = 0"
proof (induction rule: list_all2_induct)
  case (Cons e es b bs)
  then have "clean_val (PDict e)" and "exp_block e = Inr b" by simp_all
  from exp_block_tags [OF this] obtain ts where l: "li_tags ts"
    and t: "tags b = [experience_tag, ''h3'', ''/h3'', ''ul''] @ ts @ [''/ul'', ''/div'']" by blast
  from l have "experience_tag \<notin> set ts" "education_tag \<notin> set ts" "project_tag \<notin> set ts"
    by (auto simp: li_tags_def experience_tag_def education_tag_def project_tag_def)
  with Cons t show ?case
    by (simp add: count_list_0_iff experience_tag_def education_tag_def project_tag_def)
qed simp

text \<open>
  C14: the loop over \<^verbatim>\<open>experiences\<close> (lines 59--68) keeps the \<open>div\<close> profile of the
  accumulated \<^verbatim>\<open>html\<close>: when its entries hold no \<open><\<close> in their text, each block it
  appends closes every \<open>div\<close> it opens, so the nesting depth after the loop, and the
  lowest depth reached, are those before it.
\<close>

theorem exp_loop_div_profile:
  assumes "exp_loop html xs = Inr h" and "list_all clean_val xs" and "tag_closed html"
  shows "tag_closed h \<and> div_net (tags h) = div_net (tags html) \<and> div_low (tags h) = div_low (tags html)"
  using assms
proof (induction xs arbitrary: html)
  case Nil
  then show ?case by simp
next
  case (Cons x xs)
  show ?case
  proof (cases x)
    case (PDict e)
    with Cons.prems obtain b where b: "exp_block e = Inr b" and h: "exp_loop (html @ b) xs = Inr h"
      by (auto simp: exc_bind_eq_Inr)
    have "clean_val (PDict e)" using Cons.prems(2) PDict by simp
    from exp_block_balanced [OF this b] have "tag_closed b \<and> div_balanced (tags b)" .
    with Cons.prems(3) have step: "tag_closed (html @ b) \<and> div_net (tags (html @ b)) = div_net (tags html)
         \<and> div_low (tags (html @ b)) = div_low (tags html)"
      by (simp add: html_append_block)
    with Cons.IH [OF h] Cons.prems(2) show ?thesis by simp
  qed (use Cons in simp_all)
qed

theorem exp_loop_div_profile_witness:
  "\<exists>h. exp_loop ''<div>'' [PStr ''x'', PDict [(''job_title'', PStr ''Dev'')]] = Inr h
     \<and> list_all clean_val [PStr ''x'', PDict [(''job_title'', PStr ''Dev'')]] \<and> tag_closed ''<div>''
     \<and> tag_closed h \<and> div_net (tags h) = 1 \<and> div_low (tags h) = 0"
proof -
  obtain h where h: "exp_loop ''<div>'' [PStr ''x'', PDict [(''job_title'', PStr ''Dev'')]] = Inr h"
    by (simp add: exp_block_def achievements_html_def get_str_def dict_get_def)
  have c: "list_all clean_val [PStr ''x'', PDict [(''job_title'', PStr ''Dev'')]]" by simp
  have t: "tag_closed ''<div>''" by simp
  have p: "div_net (tags ''<div>'') = 1" "div_low (tags ''<div>'') = 0"
    by (simp_all add: tag_delta_def)
  from exp_loop_div_profile [OF h c t] h c t p show ?thesis by auto
qed

text \<open>
  C19: the loops over \<^verbatim>\<open>education\<close> (lines 78--86) and \<^verbatim>\<open>projects\<close> (lines
  106--115) keep the \<open>div\<close> profile of the accumulated \<^verbatim>\<open>html\<close> as the experiences
  loop does: on entries with no \<open><\<close> in their text, the nesting depth after either loop
  and the lowest depth reached are those before it.
\<close>

theorem edu_proj_loop_div_profile:
  assumes "list_all clean_val xs" and "tag_closed html"
  shows "tag_closed (edu_loop html xs) \<and> div_net (tags (edu_loop html xs)) = div_net (tags html)
           \<and> div_low (tags (edu_loop html xs)) = div_low (tags html)
         \<and> tag_closed (proj_loop html xs) \<and> div_net (tags (proj_loop html xs)) = div_net (tags html)
           \<and> div_low (tags (proj_loop html xs)) = div_low (tags html)"
  using assms
proof (induction xs arbitrary: html)
  case (Cons x xs)
  show ?case
  proof (cases x)
    case (PDict e)
    with Cons.prems(1) have b: "tag_closed (edu_block e) \<and> div_balanced (tags (edu_block e))
        \<and> tag_closed (proj_block e) \<and> div_balanced (tags (proj_block e))"
      using edu_proj_block_balanced by simp
    then have "tag_closed (html @ edu_block e) \<and> tag_closed (html @ proj_block e)"
      using Cons.prems(2) html_append_block by blast
    with Cons.IH [of "html @ edu_block e"] Cons.IH [of "html @ proj_block e"] Cons.prems b PDict
    show ?thesis by (simp add: html_append_block)
  qed (use Cons in simp_all)
qed simp

theorem edu_proj_loop_div_profile_witness:
  "list_all clean_val [PInt 3, PDict [(''degree'', PStr ''BSc'')]] \<and> tag_closed ''<div>''
   \<and> tag_closed (edu_loop ''<div>'' [PInt 3, PDict [(''degree'', PStr ''BSc'')]])
   \<and> div_net (tags (edu_loop ''<div>'' [PInt 3, PDict [(''degree'', PStr ''BSc'')]])) = 1
   \<and> div_low (tags (edu_loop ''<div>'' [PInt 3, PDict [(''degree'', PStr ''BSc'')]])) = 0
   \<and> tag_closed (proj_loop ''<div>'' [PInt 3, PDict [(''degree'', PStr ''BSc'')]])
   \<and> div_net (tags (proj_loop ''<div>'' [PInt 3, PDict [(''degree'', PStr ''BSc'')]])) = 1
   \<and> div_low (tags (proj_loop ''<div>'' [PInt 3, PDict [(''degree'', PStr ''BSc'')]])) = 0"
proof -
  have c: "list_all clean_val [PInt 3, PDict [(''degree'', PStr ''BSc'')]]" by simp
  have t: "tag_closed ''<div>''" by simp
  have p: "div_net (tags ''<div>'') = 1" "div_low (tags ''<div>'') = 0"
    by (simp_all add: tag_delta_def)
  from edu_proj_loop_div_profile [OF c t] c t p show ?thesis by simp
qed

text \<open>
  C15: on a record no string of which contains \<open><\<close>, every document the renderer
  returns is well formed in its \<open>div\<close> structure: each \<open><\<close> opens a tag closed by
  a later \<open>>\<close>, the \<open>div\<close>s are balanced, and none is closed before it is opened.
\<close>

theorem generate_resume_html_div_balanced:
  assumes clean: "clean_val (PDict data)" and ok: "generate_resume_html (PDict data) = Inr html"
  shows "tag_closed html \<and> div_balanced (tags html)"
proof -
  from clean_render_tags [OF clean ok] obtain bs where
    a2: "list_all2 (\<lambda>e b. exp_block e = Inr b) (field_dicts data ''experiences'') bs"
    and c: "tag_closed html"
    and t: "tags html = tags (doc_preamble (get_str data ''name'' [])) @ concat (replicate 5 [''span'', ''/span''])
         @ [''/div''] @ para_section_tags @ blocks_section_tags (concat (map tags bs))
         @ blocks_section_tags (concat (map (\<lambda>e. tags (edu_block e)) (field_dicts data ''education'')))
         @ para_section_tags @ para_section_tags
         @ blocks_section_tags (concat (map (\<lambda>p. tags (proj_block p)) (field_dicts data ''projects'')))
         @ para_section_tags @ para_section_tags @ [''/div'', ''/body'', ''/html'']"
    by blast
  have n: "CHR ''<'' \<notin> set (get_str data ''name'' [])"
    using clean by (simp add: get_str_clean del: clean_val.simps(3))
  have b1: "div_balanced (blocks_section_tags (concat (map tags bs)))"
    by (rule blocks_section_balanced [OF exp_blocks_balanced [OF a2 field_dicts_clean [OF clean]]])
  have b2: "div_balanced (blocks_section_tags (concat (map (\<lambda>e. tags (edu_block e)) (field_dicts data ''education''))))"
    unfolding edu_blocks_tags [OF field_dicts_clean [OF clean]]
    by (intro blocks_section_balanced div_balanced_repeat)
      (simp add: div_balanced_def tag_delta_def education_tag_def)
  have b3: "div_balanced (blocks_section_tags (concat (map (\<lambda>p. tags (proj_block p)) (field_dicts data ''projects''))))"
    unfolding proj_blocks_tags [OF field_dicts_clean [OF clean]]
    by (intro blocks_section_balanced div_balanced_repeat)
      (simp add: div_balanced_def tag_delta_def project_tag_def)
  have "div_balanced (tags html)"
    using b1 b2 b3 para_section_balanced doc_preamble_tags [OF n] unfolding t
    by (simp add: div_balanced_def div_low_append tag_delta_def numeral_eq_Suc)
  with c show ?thesis by simp
qed

theorem generate_resume_html_div_balanced_witness:
  "\<exists>html. generate_resume_html (PDict [(''name'', PStr ''Ann''), (''skills'', PList [PStr ''Python'']),
       (''experiences'', PList [PDict [(''company'', PStr ''Acme''), (''achievements'', PList [PStr ''Led''])], PStr ''x''])])
       = Inr html
     \<and> clean_val (PDict [(''name'', PStr ''Ann''), (''skills'', PList [PStr ''Python'']),
       (''experiences'', PList [PDict [(''company'', PStr ''Acme''), (''achievements'', PList [PStr ''Led''])], PStr ''x''])])
     \<and> tag_closed html \<and> div_balanced (tags html)"
proof -
  obtain html where h: "generate_resume_html (PDict [(''name'', PStr ''Ann''), (''skills'', PList [PStr ''Python'']),
       (''experiences'', PList [PDict [(''company'', PStr ''Acme''), (''achievements'', PList [PStr ''Led''])], PStr ''x''])])
       = Inr html"
    by (simp add: resume_layout_eq resume_sections_def field_dicts_def skills_text_def joined_or_na_def
        dict_get_def exp_block_def achievements_html_def str_join_def)
  have c: "clean_val (PDict [(''name'', PStr ''Ann''), (''skills'', PList [PStr ''Python'']),
       (''experiences'', PList [PDict [(''company'', PStr ''Acme''), (''achievements'', PList [PStr ''Led''])], PStr ''x''])])"
    by simp
  from generate_resume_html_div_balanced [OF c h] h c show ?thesis by blast
qed

text \<open>
  C16: on a record no string of which contains \<open><\<close>, the document holds exactly one
  \<^verbatim>\<open><div class="experience">\<close>, \<^verbatim>\<open><div class="education">\<close> and
  \<^verbatim>\<open><div class="project">\<close> per dict entry of \<^verbatim>\<open>experiences\<close>, \<^verbatim>\<open>education\<close> and
  \<^verbatim>\<open>projects\<close>; entries that are not dicts add no block.
\<close>

theorem generate_resume_html_block_counts:
  assumes clean: "clean_val (PDict data)" and ok: "generate_resume_html (PDict data) = Inr html"
  shows "count_list (tags html) experience_tag = length (field_dicts data ''experiences'')
       \<and> count_list (tags html) education_tag = length (field_dicts data ''education'')
       \<and> count_list (tags html) project_tag = length (field_dicts data ''projects'')"
proof -
  from clean_render_tags [OF clean ok] obtain bs where
    a2: "list_all2 (\<lambda>e b. exp_block e = Inr b) (field_dicts data ''experiences'') bs"
    and t: "tags html = tags (doc_preamble (get_str data ''name'' [])) @ concat (replicate 5 [''span'', ''/span''])
         @ [''/div''] @ para_section_tags @ blocks_section_tags (concat (map tags bs))
         @ blocks_section_tags (concat (map (\<lambda>e. tags (edu_block e)) (field_dicts data ''education'')))
         @ para_section_tags @ para_section_tags
         @ blocks_section_tags (concat (map (\<lambda>p. tags (proj_block p)) (field_dicts data ''projects'')))
         @ para_section_tags @ para_section_tags @ [''/div'', ''/body'', ''/html'']"
    by blast
  have n: "CHR ''<'' \<notin> set (get_str data ''name'' [])"
    using clean by (simp add: get_str_clean del: clean_val.simps(3))
  have len: "length bs = length (field_dicts data ''experiences'')"
    using a2 by (simp add: list_all2_lengthD)
  show ?thesis
    using exp_blocks_count [OF a2 field_dicts_clean [OF clean]] doc_preamble_tags [OF n] len
    unfolding t edu_blocks_tags [OF field_dicts_clean [OF clean]] proj_blocks_tags [OF field_dicts_clean [OF clean]]
    by (simp add: count_repeat para_section_tags_def blocks_section_tags_def numeral_eq_Suc
        experience_tag_def education_tag_def project_tag_def)
qed

theorem generate_resume_html_block_counts_witness:
  "\<exists>html. generate_resume_html (PDict [(''experiences'', PList [PDict [(''company'', PStr ''Acme'')], PStr ''junk''])])
       = Inr html
     \<and> clean_val (PDict [(''experiences'', PList [PDict [(''company'', PStr ''Acme'')], PStr ''junk''])])
     \<and> count_list (tags html) experience_tag = 1 \<and> count_list (tags html) education_tag = 0
     \<and> count_list (tags html) project_tag = 0"
proof -
  obtain html where h: "generate_resume_html (PDict [(''experiences'', PList [PDict [(''company'', PStr ''Acme'')], PStr ''junk''])])
       = Inr html"
    by (simp add: resume_layout_eq resume_sections_def field_dicts_def skills_text_def joined_or_na_def
        dict_get_def exp_block_def achievements_html_def)
  have c: "clean_val (PDict [(''experiences'', PList [PDict [(''company'', PStr ''Acme'')], PStr ''junk''])])"
    by simp
  have f: "length (field_dicts [(''experiences'', PList [PDict [(''company'', PStr ''Acme'')], PStr ''junk''])] ''experiences'') = 1"
    "length (field_dicts [(''experiences'', PList [PDict [(''company'', PStr ''Acme'')], PStr ''junk''])] ''education'') = 0"
    "length (field_dicts [(''experiences'', PList [PDict [(''company'', PStr ''Acme'')], PStr ''junk''])] ''projects'') = 0"
    by (simp_all add: field_dicts_def dict_get_def)
  from generate_resume_html_block_counts [OF c h] h c f show ?thesis by simp
qed


text \<open>
  C20: on a record no string of which contains \<open><\<close>, the document holds one
  \<^verbatim>\<open><li>\<close> element per item that iterating an experience's \<^verbatim>\<open>achievements\<close>
  yields (line 65), summed over the dict entries of \<^verbatim>\<open>experiences\<close>, and no other.  For
  an achievements string the items are its characters, so the string \<^verbatim>\<open>"ab"\<close> gives two
  list items.
\<close>

theorem generate_resume_html_li_count:
  assumes clean: "clean_val (PDict data)" and ok: "generate_resume_html (PDict data) = Inr html"
  shows "count_list (tags html) ''li''
       = (\<Sum>e \<leftarrow> field_dicts data ''experiences''. length (projr (py_iter (dict_get e ''achievements'' (PList [])))))"
proof -
  from clean_render_tags [OF clean ok] obtain bs where
    a2: "list_all2 (\<lambda>e b. exp_block e = Inr b) (field_dicts data ''experiences'') bs"
    and t: "tags html = tags (doc_preamble (get_str data ''name'' [])) @ concat (replicate 5 [''span'', ''/span''])
         @ [''/div''] @ para_section_tags @ blocks_section_tags (concat (map tags bs))
         @ blocks_section_tags (concat (map (\<lambda>e. tags (edu_block e)) (field_dicts data ''education'')))
         @ para_section_tags @ para_section_tags
         @ blocks_section_tags (concat (map (\<lambda>p. tags (proj_block p)) (field_dicts data ''projects'')))
         @ para_section_tags @ para_section_tags @ [''/div'', ''/body'', ''/html'']"
    by blast
  have n: "CHR ''<'' \<notin> set (get_str data ''name'' [])"
    using clean by (simp add: get_str_clean del: clean_val.simps(3))
  show ?thesis
    using exp_blocks_li_count [OF a2 field_dicts_clean [OF clean]] doc_preamble_tags [OF n]
    unfolding t edu_blocks_tags [OF field_dicts_clean [OF clean]] proj_blocks_tags [OF field_dicts_clean [OF clean]]
    by (simp add: count_repeat para_section_tags_def blocks_section_tags_def numeral_eq_Suc
        education_tag_def project_tag_def)
qed

theorem generate_resume_html_li_count_witness:
  "\<exists>html. generate_resume_html (PDict [(''experiences'', PList [PDict [(''achievements'', PStr ''ab'')], PStr ''x''])])
       = Inr html
     \<and> clean_val (PDict [(''experiences'', PList [PDict [(''achievements'', PStr ''ab'')], PStr ''x''])])
     \<and> count_list (tags html) ''li'' = 2"
proof -
  obtain html where h: "generate_resume_html (PDict [(''experiences'', PList [PDict [(''achievements'', PStr ''ab'')], PStr ''x''])])
       = Inr html"
    by (simp add: resume_layout_eq resume_sections_def field_dicts_def skills_text_def joined_or_na_def
        dict_get_def exp_block_def achievements_html_def)
  have c: "clean_val (PDict [(''experiences'', PList [PDict [(''achievements'', PStr ''ab'')], PStr ''x''])])"
    by simp
  from generate_resume_html_li_count [OF c h] h c show ?thesis
    by (simp add: field_dicts_def dict_get_def)
qed

end
