(* ===== verification/Spec2Isabelle.thy ===== *)
theory Spec2Isabelle
  imports RendererProps RuntimeProps SummaryProps ResumeCount ResumeRecord ResumeTags
begin

text \<open>
  \<^bold>\<open>Career-Compass: the resume builder logic.\<close>

  The repository's logic is one Python module, \<^verbatim>\<open>src/backend/resume_builder_logic.py\<close>,
  with two functions that do not call each other:
  \<^item> \<^verbatim>\<open>generate_resume_html(data)\<close> (lines 16--133) renders a resume record (a JSON-shaped
    dict) as one HTML document string, by appending f-string templates to a local
    \<^verbatim>\<open>html\<close>, with three loops over the \<^verbatim>\<open>experiences\<close>, \<^verbatim>\<open>education\<close> and
    \<^verbatim>\<open>projects\<close> lists;
  \<^item> \<^verbatim>\<open>generate_summary_from_experience(work_experience)\<close> (lines 4--15) loads the
    pretrained T5 tokenizer and model, generates a summary of the text and rewrites it with
    \<^verbatim>\<open>str.split\<close> and \<^verbatim>\<open>str.join\<close> into a first-person paragraph.
  A caller may put the summary into the record's \<^verbatim>\<open>summary\<close> field; inside the module the
  two share nothing.  Neither keeps state between calls: both are modelled as functions
  whose Python exceptions are the left summand of a sum type.

  \<^bold>\<open>Theories and what they model.\<close>
  \<^item> \<open>Prelude\<close>: \<open>exc_bind\<close> (an exception propagates, the rest of the body is
    skipped), \<open>exc_map\<close> (a loop that stops at the first exception), \<open>join_with\<close>
    (\<^verbatim>\<open>sep.join\<close> on strings), \<open>text_lines\<close> (a triple-quoted template as its list of
    lines), with the lemma collections \<open>exc_simps\<close> and \<open>join_simps\<close>.
  \<^item> \<open>PyValue\<close>: the Python values a JSON record holds (\<open>pyval\<close>: str, int, bool,
    None, list, dict with string keys in insertion order), the exceptions with CPython's
    messages (\<open>py_exc\<close>), and the builtins the module calls: \<^verbatim>\<open>dict.get\<close>
    (\<open>dict_get\<close>), truth testing (\<open>py_truthy\<close>), \<^verbatim>\<open>isinstance\<close> (\<open>is_list\<close>,
    \<open>is_dict\<close>), iteration (\<open>py_iter\<close>), \<^verbatim>\<open>str.join\<close> with its item check
    (\<open>str_join\<close>, \<open>collect_strs\<close>), \<^verbatim>\<open>str\<close>/\<^verbatim>\<open>repr\<close> as an f-string field applies
    them (\<open>py_str\<close>, \<open>py_repr\<close>, \<open>str_repr\<close>, \<open>int_str\<close>).
  \<^item> \<open>ResumeHtml\<close>: \<^verbatim>\<open>generate_resume_html\<close>, one definition per template, field
    expression and loop, in the source's order: \<open>head_html\<close> (17--56),
    \<open>achievements_html\<close>, \<open>exp_block\<close>, \<open>exp_loop\<close>, \<open>work_experience_html\<close>
    (57--68), \<open>education_open\<close>, \<open>edu_block\<close>, \<open>edu_loop\<close>, \<open>education_html\<close>
    (70--86), \<open>skills_text\<close>, \<open>joined_or_na\<close>, \<open>skills_certs_template\<close>,
    \<open>skills_certs_html\<close> (88--103), \<open>proj_block\<close>, \<open>proj_loop\<close>,
    \<open>projects_html\<close> (104--115), \<open>tail_template\<close>, \<open>tail_html\<close> (117--132),
    composed by \<open>generate_resume_html\<close>.  The local \<^verbatim>\<open>html\<close> is passed through the
    loops as explicit state.  Lemmas: the loops equal maps over the dict entries
    (\<open>exp_loop_eq\<close> and its kin), and the exact condition \<open>render_ok\<close> under which
    nothing is raised.
  \<^item> \<open>ResumeLayout\<close>: the abstract document (\<open>document_html\<close>: preamble, contact line,
    titled sections, closing tags) and the refinement of the renderer to it.
  \<^item> \<open>ResumeFields\<close>: which keys and entries the renderer reads, the exceptions of
    individual fields, verbatim (unescaped) insertion of field text.
  \<^item> \<open>ResumeCount\<close>: occurrences of the section marker
    \<^verbatim>\<open><div class="section">\<close> (\<open>count_sub\<close>): a document holds at least one per
    section plus every one in the summary text.
  \<^item> \<open>MarkupScan\<close>: text read as HTML markup: \<open>tags\<close> scans for \<open><\<close>...\<open>>\<close>
    as an HTML tokenizer does, \<open>tag_closed\<close> says every tag ends, \<open>div_net\<close> and
    \<open>div_low\<close> are the net and lowest \<open>div\<close> nesting of a tag sequence, \<open>clean_val\<close>
    holds of values with no \<open><\<close> in any string.  Lemmas: clean values print no tags
    through \<open>str\<close>, \<open>repr\<close> and \<open>str.join\<close>; a template's tags are those of its
    lines (\<open>text_lines_tags\<close>), a join's and a concatenation's those of its parts.
  \<^item> \<open>ResumeTags\<close>: the exact tag sequence of every block template, section and the
    document frame, and of a whole rendered clean record (\<open>clean_render_tags\<close>); from it
    the loop invariants of the experiences, education and projects loops, the balance of the document's \<open>div\<close>s, and
    the count of experience, education and project blocks and of \<open>li\<close> items.
  \<^item> \<open>ResumeRecord\<close>: the spec's typed data model (section 3) as records
    (\<open>resume\<close>, \<open>experience\<close>, \<open>education_entry\<close>, \<open>project\<close>, every field optional),
    their encoding as the JSON object a caller passes (\<open>resume_dict\<close>, an absent field
    an absent key), the typed rendering \<open>render_resume\<close>, and the refinement: on every
    encoded record the renderer raises nothing and returns \<open>render_resume\<close>.
  \<^item> \<open>PyStr\<close>: \<^verbatim>\<open>str.split\<close> with an explicit separator as CPython's loop
    (\<open>find_sub\<close>, \<open>split_loop\<close>, \<open>py_split\<close>), its termination by the length of
    the remaining text, the round trip with \<open>join_with\<close>, and the declarative
    characterisation \<open>split_spec\<close> (cuts at leftmost occurrences, unique); the same
    loop over indices as the C code writes it (\<open>split_found\<close>, \<open>split_step\<close>,
    \<open>split_index\<close>, a \<open>while_option\<close>), its termination and equality with
    \<open>split_loop\<close>.
  \<^item> \<open>PyRepr\<close>: readers for what \<open>str\<close>/\<open>repr\<close> print, each returning the text
    after what it read: \<open>lit_body\<close> for the string literals \<open>repr\<close> emits,
    \<open>parse_int\<close> for decimal integers, and \<open>parse_val\<close> (with
    \<open>parse_items\<close>, \<open>parse_entries\<close>) for whole list and dict displays, with fuel; and
    the lemmas that read back one character, literal, integer and display item.
  \<^item> \<open>Summary\<close>: \<^verbatim>\<open>generate_summary_from_experience\<close> over \<open>t5_library\<close>, a
    record of the five \<^verbatim>\<open>transformers\<close> entry points it calls (two loads and
    \<^verbatim>\<open>generate\<close> may raise; encoding and decoding are pure), with the generation
    arguments \<open>summary_config\<close>, \<^verbatim>\<open>summary_ids[0]\<close> and its \<open>IndexError\<close>, and the
    post-processing \<open>format_summary\<close>, proved equal to the reference \<open>add_breaks\<close>
    (a line break after every \<^verbatim>\<open>". "\<close>).
  \<^item> \<open>RendererProps\<close>, \<open>RuntimeProps\<close>, \<open>SummaryProps\<close>: the properties of the
    renderer (C1 to C8), of the builtins (C9, C13, C17, C18) and of the summary
    post-processing (C10); \<open>ResumeRecord\<close> holds C11, \<open>ResumeCount\<close> C12 and
    \<open>ResumeTags\<close> C14 to C16, C19 and C20.  The model theories above hold the
    definitions and the lemmas the proofs share and no property, so a property and its
    witness can be read, or removed, without touching the model.
  \<^item> This theory: the documentation, importing every other theory.

  \<^bold>\<open>What the theorems show.\<close>  The renderer is the layout of eight titled sections in a
  fixed order (not the ten the spec counts); it raises exactly when the record is not a
  dict, an experience's achievements are not iterable, or a list field holds a non-string
  (the spec says it never fails), and never on a well-typed record; list items that are
  not dicts are skipped; achievements are joined by a space (the spec says without
  separator, C11's typed rendering writes the space); the absent list fields render the
  N/A fallbacks except for skills (C11); field text is inserted unescaped; \<open>repr\<close> of
  any field value, nested lists and dicts included, reads back as the value.  The
  experiences, education and projects loops keep the \<open>div\<close> nesting of the
  accumulated \<^verbatim>\<open>html\<close> (their invariant), and on records without \<open><\<close> in their text the
  whole document is balanced in its \<open>div\<close>s and holds one experience, education and
  project block per dict entry of the list and one \<open>li\<close> item per item that iterating
  an experience's achievements yields (a string's characters, the spec's gap); a summary
  holding the section marker adds section blocks.  \<^verbatim>\<open>str.split\<close> is
  characterised by its leftmost cuts, terminates as CPython's index loop, and returns at
  most \<^verbatim>\<open>len(s) // len(sep) + 1\<close> pieces; the summary post-processing equals
  inserting a newline after every \<^verbatim>\<open>". "\<close>.  The generator's call sequence is
  modelled for any library behaviour; what it returns depends on the library alone, so
  no property is stated of it beyond its post-processing.

  \<^bold>\<open>Bounds and fuel.\<close>  The model of the module needs no fuel: every loop of it runs
  over a finite list or a shrinking text, so every definition is total (\<^theory_text>\<open>fun\<close>, or
  \<^theory_text>\<open>function\<close> with a measure for \<open>split_loop\<close>, and for the scanners
  \<open>tags\<close>, \<open>tag_closed\<close>) and executable.  The one loop written as a
  \<open>while_option\<close>, CPython's \<open>split_index\<close>, is proved to return for a nonempty
  separator (the measure is the length of the text left); the empty separator, for which
  it would not return, is rejected by \<^verbatim>\<open>str.split\<close> with \<open>ValueError\<close> before the
  loop, as \<open>py_split\<close> does.  The module has no
  reactive or concurrent part, so no liveness property applies.  Only the reader
  \<open>parse_val\<close> of \<open>PyRepr\<close>, a specification of the printed text rather than code of
  the module, takes fuel: one unit per nesting level and per list or dict item, so fuel
  above the HOL \<open>size\<close> of the value (which counts exactly those) is enough, and the
  round trip C18 is proved for every such fuel.

  \<^bold>\<open>Not modelled.\<close>  The \<^verbatim>\<open>transformers\<close> library (weights download, tokenisation,
  beam search, decoding) is a parameter, so no theorem depends on what the model
  generates.  Three corners of the Python runtime are outside the value model, and
  cannot be added faithfully with the libraries this development builds on:
  Python floats (JSON numbers with a fraction), whose \<open>repr\<close> is the shortest decimal
  that reads back to the same IEEE-754 double and so needs a model of binary64
  rounding; code points above 255, since HOL's \<open>char\<close> is a byte and \<open>repr\<close> of
  such a character depends on the Unicode database's printable classes; and the
  4300-digit limit of \<^verbatim>\<open>int\<close>-to-\<^verbatim>\<open>str\<close> conversion of Python 3.11 and later.  The spec's
  idempotence property (rendering a record twice gives the same text) holds by
  construction, since the renderer is a HOL function, and is not stated as a theorem.
\<close>

end
